theory Spec2Isabelle
  imports Main "HOL-Library.Word"
begin

section \<open>Shared types: return codes, events, timers, the global mutex\<close>

text \<open>
  The return codes of \<^verbatim>\<open>bsc-retcodes.h\<close> that the two modules name, and one
  constructor for every other code a transport call may return.
\<close>

datatype BSC_SC_RET =
    BSC_SC_SUCCESS
  | BSC_SC_NO_RESOURCES
  | BSC_SC_BAD_PARAM
  | BSC_SC_INVALID_OPERATION
  | BSC_SC_DUPLICATED_VMAC
  | BSC_SC_OTHER nat

type_synonym octets = "8 word list"
type_synonym BACNET_SC_VMAC_ADDRESS = "8 word list"
type_synonym BACNET_SC_UUID = "8 word list"

text \<open>\<^verbatim>\<open>struct mstimer\<close>: the moment it was armed and its interval (milliseconds).\<close>

record mstimer =
  mstimer_start :: nat
  mstimer_interval :: nat

text \<open>
  The global recursive mutex behind \<^verbatim>\<open>bsc_global_mutex_lock\<close> and
  \<^verbatim>\<open>bsc_global_mutex_unlock\<close> (a recursive pthread mutex, as the one of
  \<^verbatim>\<open>websocket-mutex.c\<close>), seen from the one thread that runs the modelled call: its
  hold count. Every modelled world carries it.
\<close>

record world =
  mutex :: nat

definition bsc_global_mutex_lock :: "'a world_scheme \<Rightarrow> 'a world_scheme" where
  "bsc_global_mutex_lock w = w\<lparr>mutex := Suc (mutex w)\<rparr>"

definition bsc_global_mutex_unlock :: "'a world_scheme \<Rightarrow> 'a world_scheme" where
  "bsc_global_mutex_unlock w = w\<lparr>mutex := mutex w - 1\<rparr>"

section \<open>The hub connector (\<^verbatim>\<open>bsc-hub-connector.c\<close>)\<close>

datatype BSC_HUB_CONN_TYPE = BSC_HUB_CONN_PRIMARY | BSC_HUB_CONN_FAILOVER

datatype BSC_HUB_CONNECTOR_STATE =
    BSC_HUB_CONNECTOR_STATE_IDLE
  | BSC_HUB_CONNECTOR_STATE_CONNECTING_PRIMARY
  | BSC_HUB_CONNECTOR_STATE_CONNECTING_FAILOVER
  | BSC_HUB_CONNECTOR_STATE_CONNECTED_PRIMARY
  | BSC_HUB_CONNECTOR_STATE_CONNECTED_FAILOVER
  | BSC_HUB_CONNECTOR_STATE_WAIT_FOR_RECONNECT
  | BSC_HUB_CONNECTOR_STATE_WAIT_FOR_CTX_DEINIT
  | BSC_HUB_CONNECTOR_STATE_ERROR

datatype BSC_SOCKET_EVENT =
    BSC_SOCKET_EVENT_CONNECTED
  | BSC_SOCKET_EVENT_DISCONNECTED
  | BSC_SOCKET_EVENT_RECEIVED

datatype BSC_CTX_EVENT = BSC_CTX_INITIALIZED | BSC_CTX_DEINITIALIZED

datatype BSC_HUB_CONNECTOR_EVENT =
    BSC_HUBC_EVENT_CONNECTED_PRIMARY
  | BSC_HUBC_EVENT_CONNECTED_FAILOVER
  | BSC_HUBC_EVENT_DISCONNECTED
  | BSC_HUBC_EVENT_RECEIVED
  | BSC_HUBC_EVENT_STOPPED
  | BSC_HUBC_EVENT_ERROR_DUPLICATED_VMAC

datatype BSC_SOCKET_CTX_TYPE = BSC_SOCKET_CTX_INITIATOR | BSC_SOCKET_CTX_ACCEPTOR

datatype BSC_WEBSOCKET_PROTOCOL = BSC_WEBSOCKET_HUB_PROTOCOL | BSC_WEBSOCKET_DIRECT_PROTOCOL

text \<open>
  The arguments of \<^verbatim>\<open>bsc_hub_connector_start\<close>, under their C names. A pointer is
  an option (\<open>None\<close> is the null pointer), a \<^verbatim>\<open>size_t\<close> a natural number, an
  \<^verbatim>\<open>unsigned int\<close> a 32-bit word, a C string the list of its characters before
  the terminating NUL. The callback is known by its address.
\<close>

record hub_connector_start_args =
  ca_cert_chain :: "octets option"
  ca_cert_chain_size :: nat
  cert_chain :: "octets option"
  cert_chain_size :: nat
  key :: "octets option"
  key_size :: nat
  local_uuid :: "BACNET_SC_UUID option"
  local_vmac :: "BACNET_SC_VMAC_ADDRESS option"
  max_local_bvlc_len :: "16 word"
  max_local_npdu_len :: "16 word"
  connect_timeout_s :: "32 word"
  heartbeat_timeout_s :: "32 word"
  disconnect_timeout_s :: "32 word"
  primaryURL :: "string option"
  failoverURL :: "string option"
  reconnect_timeout_s :: "32 word"
  event_func :: "nat option"

text \<open>
  What \<^verbatim>\<open>bsc_init_ctx_cfg\<close> is handed: the role, the websocket protocol, the port
  and the caller's arguments.
\<close>

record BSC_CONTEXT_CFG =
  cfg_type :: BSC_SOCKET_CTX_TYPE
  cfg_proto :: BSC_WEBSOCKET_PROTOCOL
  cfg_port :: nat
  cfg_args :: hub_connector_start_args

text \<open>
  \<^verbatim>\<open>struct BSC_Hub_Connector\<close>. The socket context and the two socket slots belong
  to the transport, which alone reads and writes them; the connector only passes their
  addresses on, so a slot is named by its index \<^typ>\<open>BSC_HUB_CONN_TYPE\<close> and the
  structure keeps the fields the connector itself assigns. The fields
  \<^verbatim>\<open>reconnect_timeout_s\<close> and \<^verbatim>\<open>event_func\<close> carry the prefix \<open>hc_\<close>, the
  arguments of the start having these names already.
\<close>

record BSC_HUB_CONNECTOR =
  cfg :: "BSC_CONTEXT_CFG option"
  state :: BSC_HUB_CONNECTOR_STATE
  hc_reconnect_timeout_s :: "32 word"
  primary_url :: string
  failover_url :: string
  t :: mstimer
  hc_event_func :: "nat option"
  error :: BSC_SC_RET

text \<open>
  Every call the connector makes out of the module, in order: to the transport, to the
  runloop, and to the owner's \<^verbatim>\<open>event_func\<close> (event, cause, pdu, length).
\<close>

datatype hub_connector_call =
    Call_bsc_connect BSC_HUB_CONN_TYPE string
  | Call_bsc_send BSC_HUB_CONN_TYPE "octets option" nat
  | Call_bsc_runloop_reg
  | Call_bsc_runloop_unreg
  | Call_bsc_init_ctx "BSC_CONTEXT_CFG option" nat
  | Call_bsc_deinit_ctx
  | Call_event_func BSC_HUB_CONNECTOR_EVENT BSC_SC_RET "octets option" nat

text \<open>
  The module's two statics, the mutex and the calls made so far.
\<close>

record hub_connector_world = world +
  bsc_hub_connector :: BSC_HUB_CONNECTOR
  bsc_hub_connector_started :: bool
  calls :: "hub_connector_call list"

text \<open>
  What the code outside the module answers: the return codes of the transport and the
  runloop, and the timer functions of \<^verbatim>\<open>mstimer.h\<close>. \<^verbatim>\<open>BSC_WSURL_MAX_LEN\<close> is
  a constant of a header that is taken as a parameter too.
\<close>

record hub_connector_env =
  bsc_connect :: "BSC_HUB_CONN_TYPE \<Rightarrow> string \<Rightarrow> BSC_SC_RET"
  bsc_send :: "BSC_HUB_CONN_TYPE \<Rightarrow> octets option \<Rightarrow> nat \<Rightarrow> BSC_SC_RET"
  bsc_runloop_reg :: BSC_SC_RET
  bsc_init_ctx :: BSC_SC_RET
  mstimer_set :: "mstimer \<Rightarrow> 32 word \<Rightarrow> mstimer"
  mstimer_expired :: "mstimer \<Rightarrow> bool"
  BSC_WSURL_MAX_LEN :: nat

definition hc_call :: "hub_connector_call \<Rightarrow> hub_connector_world \<Rightarrow> hub_connector_world" where
  "hc_call c w = w\<lparr>calls := calls w @ [c]\<rparr>"

definition hc_set_state :: "BSC_HUB_CONNECTOR_STATE \<Rightarrow> hub_connector_world \<Rightarrow> hub_connector_world" where
  "hc_set_state s w = w\<lparr>bsc_hub_connector := (bsc_hub_connector w)\<lparr>state := s\<rparr>\<rparr>"

definition hc_state :: "hub_connector_world \<Rightarrow> BSC_HUB_CONNECTOR_STATE" where
  "hc_state w = state (bsc_hub_connector w)"

definition bsc_hub_connector_stop :: "hub_connector_world \<Rightarrow> hub_connector_world" where
  "bsc_hub_connector_stop w =
     (let w1 = bsc_global_mutex_lock w;
          w2 = (if bsc_hub_connector_started w1 \<and>
                   hc_state w1 \<noteq> BSC_HUB_CONNECTOR_STATE_WAIT_FOR_CTX_DEINIT
                then hc_call Call_bsc_deinit_ctx
                       (hc_call Call_bsc_runloop_unreg
                          (hc_set_state BSC_HUB_CONNECTOR_STATE_WAIT_FOR_CTX_DEINIT w1))
                else w1)
      in bsc_global_mutex_unlock w2)"

definition hub_connector_connect_or_stop ::
  "hub_connector_env \<Rightarrow> BSC_HUB_CONN_TYPE \<Rightarrow> hub_connector_world \<Rightarrow> hub_connector_world" where
  "hub_connector_connect_or_stop env type w =
     (let w1 = hc_set_state
                 (if type = BSC_HUB_CONN_PRIMARY
                  then BSC_HUB_CONNECTOR_STATE_CONNECTING_PRIMARY
                  else BSC_HUB_CONNECTOR_STATE_CONNECTING_FAILOVER) w;
          url = (if type = BSC_HUB_CONN_PRIMARY
                 then primary_url (bsc_hub_connector w1)
                 else failover_url (bsc_hub_connector w1));
          ret = bsc_connect env type url;
          w2 = hc_call (Call_bsc_connect type url) w1
      in if ret \<noteq> BSC_SC_SUCCESS
         then bsc_hub_connector_stop
                (w2\<lparr>bsc_hub_connector :=
                      (bsc_hub_connector w2)\<lparr>state := BSC_HUB_CONNECTOR_STATE_ERROR, error := ret\<rparr>\<rparr>)
         else w2)"

definition hub_connector_process_state ::
  "hub_connector_env \<Rightarrow> hub_connector_world \<Rightarrow> hub_connector_world" where
  "hub_connector_process_state env w =
     (if hc_state w = BSC_HUB_CONNECTOR_STATE_WAIT_FOR_RECONNECT
      then (if mstimer_expired env (t (bsc_hub_connector w))
            then hub_connector_connect_or_stop env BSC_HUB_CONN_PRIMARY w
            else w)
      else w)"

text \<open>
  \<^verbatim>\<open>hub_connector_socket_event(c, ev, err, pdu, pdu_len, decoded_pdu)\<close>. The slot
  \<open>c\<close> that raised the event and the decoded message are not read by the function.
\<close>

definition hub_connector_socket_event ::
  "hub_connector_env \<Rightarrow> BSC_HUB_CONN_TYPE \<Rightarrow> BSC_SOCKET_EVENT \<Rightarrow> BSC_SC_RET \<Rightarrow> octets option \<Rightarrow> nat
     \<Rightarrow> hub_connector_world \<Rightarrow> hub_connector_world" where
  "hub_connector_socket_event env c ev err pdu pdu_len w =
     (let w1 = bsc_global_mutex_lock w;
          w2 =
            (if ev = BSC_SOCKET_EVENT_CONNECTED then
               (if hc_state w1 = BSC_HUB_CONNECTOR_STATE_CONNECTING_PRIMARY then
                  hc_call (Call_event_func BSC_HUBC_EVENT_CONNECTED_PRIMARY BSC_SC_SUCCESS None 0)
                    (hc_set_state BSC_HUB_CONNECTOR_STATE_CONNECTED_PRIMARY w1)
                else if hc_state w1 = BSC_HUB_CONNECTOR_STATE_CONNECTING_FAILOVER then
                  hc_call (Call_event_func BSC_HUBC_EVENT_CONNECTED_FAILOVER BSC_SC_SUCCESS None 0)
                    (hc_set_state BSC_HUB_CONNECTOR_STATE_CONNECTED_FAILOVER w1)
                else w1)
             else if ev = BSC_SOCKET_EVENT_DISCONNECTED then
               (if err = BSC_SC_DUPLICATED_VMAC then
                  bsc_hub_connector_stop
                    (hc_call (Call_event_func BSC_HUBC_EVENT_DISCONNECTED BSC_SC_DUPLICATED_VMAC None 0)
                       (w1\<lparr>bsc_hub_connector :=
                             (bsc_hub_connector w1)\<lparr>state := BSC_HUB_CONNECTOR_STATE_ERROR,
                                                      error := BSC_SC_DUPLICATED_VMAC\<rparr>\<rparr>))
                else if hc_state w1 = BSC_HUB_CONNECTOR_STATE_CONNECTING_PRIMARY then
                  hub_connector_connect_or_stop env BSC_HUB_CONN_FAILOVER w1
                else if hc_state w1 = BSC_HUB_CONNECTOR_STATE_CONNECTING_FAILOVER then
                  w1\<lparr>bsc_hub_connector :=
                       (bsc_hub_connector w1)
                         \<lparr>state := BSC_HUB_CONNECTOR_STATE_WAIT_FOR_RECONNECT,
                          t := mstimer_set env (t (bsc_hub_connector w1))
                                 (hc_reconnect_timeout_s (bsc_hub_connector w1) * 1000)\<rparr>\<rparr>
                else if hc_state w1 = BSC_HUB_CONNECTOR_STATE_CONNECTED_PRIMARY \<or>
                        hc_state w1 = BSC_HUB_CONNECTOR_STATE_CONNECTED_FAILOVER then
                  hub_connector_connect_or_stop env BSC_HUB_CONN_PRIMARY
                    (hc_call (Call_event_func BSC_HUBC_EVENT_DISCONNECTED err None 0) w1)
                else w1)
             else if ev = BSC_SOCKET_EVENT_RECEIVED then
               hc_call (Call_event_func BSC_HUBC_EVENT_RECEIVED BSC_SC_SUCCESS pdu pdu_len) w1
             else w1)
      in bsc_global_mutex_unlock w2)"

definition hub_connector_context_event ::
  "BSC_CTX_EVENT \<Rightarrow> hub_connector_world \<Rightarrow> hub_connector_world" where
  "hub_connector_context_event ev w =
     (if ev = BSC_CTX_DEINITIALIZED then
        (let w1 = bsc_global_mutex_lock w;
             was_started = bsc_hub_connector_started w1;
             w2 = w1\<lparr>bsc_hub_connector_started := False\<rparr>;
             st = hc_state w2;
             w3 = hc_set_state BSC_HUB_CONNECTOR_STATE_IDLE w2;
             w4 = (if was_started then
                     (if st = BSC_HUB_CONNECTOR_STATE_ERROR then
                        hc_call (Call_event_func BSC_HUBC_EVENT_STOPPED
                                   (error (bsc_hub_connector w3)) None 0) w3
                      else
                        hc_call (Call_event_func BSC_HUBC_EVENT_STOPPED BSC_SC_SUCCESS None 0) w3)
                   else w3)
         in bsc_global_mutex_unlock w4)
      else w)"

text \<open>
  \<^verbatim>\<open>bsc_hub_connector_start\<close>. The two tests come before the lock is taken. The
  state is set to CONNECTING-PRIMARY whatever \<^verbatim>\<open>bsc_init_ctx\<close> returned, as in the
  source.
\<close>

definition bsc_hub_connector_start ::
  "hub_connector_env \<Rightarrow> hub_connector_start_args \<Rightarrow> hub_connector_world
     \<Rightarrow> BSC_SC_RET \<times> hub_connector_world" where
  "bsc_hub_connector_start env a w =
     (case (primaryURL a, failoverURL a) of
        (Some pURL, Some fURL) \<Rightarrow>
          if ca_cert_chain a = None \<or> ca_cert_chain_size a = 0 \<or> cert_chain a = None \<or>
             cert_chain_size a = 0 \<or> key a = None \<or> key_size a = 0 \<or> local_uuid a = None \<or>
             local_vmac a = None \<or> max_local_npdu_len a = 0 \<or> max_local_bvlc_len a = 0 \<or>
             connect_timeout_s a = 0 \<or> heartbeat_timeout_s a = 0 \<or>
             disconnect_timeout_s a = 0 \<or> reconnect_timeout_s a = 0 \<or> event_func a = None
          then (BSC_SC_BAD_PARAM, w)
          else if length pURL > BSC_WSURL_MAX_LEN env \<or> length fURL > BSC_WSURL_MAX_LEN env
          then (BSC_SC_BAD_PARAM, w)
          else
            (let w1 = bsc_global_mutex_lock w in
             if bsc_hub_connector_started w1
             then (BSC_SC_INVALID_OPERATION, bsc_global_mutex_unlock w1)
             else
               (let w2 = w1\<lparr>bsc_hub_connector :=
                              (bsc_hub_connector w1)
                                \<lparr>hc_reconnect_timeout_s := reconnect_timeout_s a,
                                 primary_url := pURL,
                                 failover_url := fURL,
                                 hc_event_func := event_func a,
                                 cfg := Some \<lparr>cfg_type = BSC_SOCKET_CTX_INITIATOR,
                                              cfg_proto = BSC_WEBSOCKET_HUB_PROTOCOL,
                                              cfg_port = 0, cfg_args = a\<rparr>\<rparr>\<rparr>;
                    w3 = hc_call Call_bsc_runloop_reg w2
                in if bsc_runloop_reg env = BSC_SC_SUCCESS then
                     (let w4 = hc_call (Call_bsc_init_ctx (cfg (bsc_hub_connector w3)) 2) w3;
                          w5 = hc_set_state BSC_HUB_CONNECTOR_STATE_CONNECTING_PRIMARY w4
                      in if bsc_init_ctx env = BSC_SC_SUCCESS then
                           (let ret = bsc_connect env BSC_HUB_CONN_PRIMARY
                                        (primary_url (bsc_hub_connector w5));
                                w6 = hc_call (Call_bsc_connect BSC_HUB_CONN_PRIMARY
                                                (primary_url (bsc_hub_connector w5))) w5
                            in if ret = BSC_SC_SUCCESS
                               then (ret, bsc_global_mutex_unlock
                                            (w6\<lparr>bsc_hub_connector_started := True\<rparr>))
                               else (ret, bsc_global_mutex_unlock
                                            (hc_call Call_bsc_deinit_ctx
                                               (hc_call Call_bsc_runloop_unreg
                                                  (hc_set_state BSC_HUB_CONNECTOR_STATE_IDLE w6)))))
                         else (bsc_init_ctx env, bsc_global_mutex_unlock w5))
                   else (bsc_runloop_reg env, bsc_global_mutex_unlock w3)))
      | _ \<Rightarrow> (BSC_SC_BAD_PARAM, w))"

text \<open>
  \<^verbatim>\<open>bsc_hub_connector_send\<close>. The first return leaves the function with the mutex
  still taken: the source has no unlock on that path.
\<close>

definition bsc_hub_connector_send ::
  "hub_connector_env \<Rightarrow> octets option \<Rightarrow> nat \<Rightarrow> hub_connector_world
     \<Rightarrow> BSC_SC_RET \<times> hub_connector_world" where
  "bsc_hub_connector_send env pdu pdu_len w =
     (let w1 = bsc_global_mutex_lock w in
      if \<not> bsc_hub_connector_started w1 \<or>
         (hc_state w1 \<noteq> BSC_HUB_CONNECTOR_STATE_CONNECTED_PRIMARY \<and>
          hc_state w1 \<noteq> BSC_HUB_CONNECTOR_STATE_CONNECTED_FAILOVER)
      then (BSC_SC_INVALID_OPERATION, w1)
      else if hc_state w1 = BSC_HUB_CONNECTOR_STATE_CONNECTED_PRIMARY
      then (bsc_send env BSC_HUB_CONN_PRIMARY pdu pdu_len,
            bsc_global_mutex_unlock (hc_call (Call_bsc_send BSC_HUB_CONN_PRIMARY pdu pdu_len) w1))
      else (bsc_send env BSC_HUB_CONN_FAILOVER pdu pdu_len,
            bsc_global_mutex_unlock (hc_call (Call_bsc_send BSC_HUB_CONN_FAILOVER pdu pdu_len) w1)))"

section \<open>The node (\<^verbatim>\<open>bsc-node.c\<close>)\<close>

datatype BSC_NODE_STATE =
    BSC_NODE_STATE_IDLE
  | BSC_NODE_STATE_STARTING
  | BSC_NODE_STATE_STARTED
  | BSC_NODE_STATE_RESTARTING
  | BSC_NODE_STATE_STOPPING

datatype BSC_NODE_EVENT =
    BSC_NODE_EVENT_STARTED
  | BSC_NODE_EVENT_STOPPED
  | BSC_NODE_EVENT_RESTARTED
  | BSC_NODE_EVENT_RECEIVED

datatype BSC_HUB_FUNCTION_EVENT =
    BSC_HUBF_EVENT_STARTED
  | BSC_HUBF_EVENT_STOPPED
  | BSC_HUBF_EVENT_ERROR_DUPLICATED_VMAC

datatype BSC_NODE_SWITCH_EVENT =
    BSC_NODE_SWITCH_EVENT_STARTED
  | BSC_NODE_SWITCH_EVENT_STOPPED
  | BSC_NODE_SWITCH_EVENT_RECEIVED
  | BSC_NODE_SWITCH_EVENT_DUPLICATED_VMAC

datatype BVLC_SC_MESSAGE_TYPE =
    BVLC_SC_RESULT
  | BVLC_SC_ENCAPSULATED_NPDU
  | BVLC_SC_ADDRESS_RESOLUTION
  | BVLC_SC_ADDRESS_RESOLUTION_ACK
  | BVLC_SC_ADVERTISIMENT
  | BVLC_SC_ADVERTISIMENT_SOLICITATION
  | BVLC_SC_CONNECT_REQUEST
  | BVLC_SC_CONNECT_ACCEPT
  | BVLC_SC_DISCONNECT_REQUEST
  | BVLC_SC_DISCONNECT_ACK
  | BVLC_SC_HEARTBEAT_REQUEST
  | BVLC_SC_HEARTBEAT_ACK
  | BVLC_SC_PROPRIETARY_MESSAGE

datatype BACNET_ERROR_CLASS = ERROR_CLASS_COMMUNICATION

datatype BACNET_ERROR_CODE =
    ERROR_CODE_HEADER_NOT_UNDERSTOOD
  | ERROR_CODE_OPTIONAL_FUNCTIONALITY_NOT_SUPPORTED

datatype BVLC_SC_HUB_CONNECTION_STATUS =
    BVLC_SC_HUB_CONNECTION_ABSENT
  | BVLC_SC_HUB_CONNECTION_PRIMARY_HUB_CONNECTED
  | BVLC_SC_HUB_CONNECTION_FAILOVER_HUB_CONNECTED

datatype BVLC_SC_DIRECT_CONNECTION_SUPPORT =
    BVLC_SC_DIRECT_CONNECTIONS_ACCEPT_UNSUPPORTED
  | BVLC_SC_DIRECT_CONNECTIONS_ACCEPT_SUPPORTED

definition ERROR_STR_OPTION_NOT_UNDERSTOOD :: string where
  "ERROR_STR_OPTION_NOT_UNDERSTOOD =
     [CHR 0x27] @ ''must understand'' @ [CHR 0x27] @ '' option not understood ''"

definition ERROR_STR_DIRECT_CONNECTIONS_NOT_SUPPORTED :: string where
  "ERROR_STR_DIRECT_CONNECTIONS_NOT_SUPPORTED = ''direct connections are not supported''"

text \<open>
  The decoded message handed up with a RECEIVED event, with the fields the node reads:
  of the header, the function, the message id, the two address pointers and the
  destination options (\<^verbatim>\<open>hdr.dest_options_len\<close> is the number of elements of the
  list); of the payload, the function a result refers to and the URI string of an
  address resolution ack (its length is the length of the string).
\<close>

record BVLC_SC_DECODED_HDR_OPTION =
  must_understand :: bool
  packed_header_marker :: "8 word"

record BVLC_SC_DECODED_MESSAGE =
  bvlc_function :: BVLC_SC_MESSAGE_TYPE
  message_id :: "16 word"
  origin :: "BACNET_SC_VMAC_ADDRESS option"
  dest :: "BACNET_SC_VMAC_ADDRESS option"
  dest_options :: "BVLC_SC_DECODED_HDR_OPTION list"
  payload_result_bvlc_function :: BVLC_SC_MESSAGE_TYPE
  payload_utf8_websocket_uri_string :: string

text \<open>
  \<^verbatim>\<open>BSC_NODE_CONF\<close>, with the fields the node itself reads or writes. The other
  fields (certificates, key, UUID, timeouts, URLs, ports) are only handed on to the
  sub-components when they are started. \<^verbatim>\<open>local_vmac\<close> is the cell the pointer of
  the C structure points to.
\<close>

record BSC_NODE_CONF =
  local_vmac :: BACNET_SC_VMAC_ADDRESS
  max_local_bvlc_len :: "16 word"
  max_local_npdu_len :: "16 word"
  hub_function_enabled :: bool
  node_switch_enabled :: bool
  direct_connection_accept_uris :: string
  direct_connection_accept_uris_len :: nat

text \<open>
  \<^verbatim>\<open>BSC_ADDRESS_RESOLUTION\<close>: \<^verbatim>\<open>utf8_urls\<close> is an array of
  \<^verbatim>\<open>BSC_CONF_NODE_MAX_URIS_NUM_IN_ADDRESS_RESOLUTION_ACK\<close> rows of
  \<^verbatim>\<open>BSC_CONF_NODE_MAX_URI_SIZE_IN_ADDRESS_RESOLUTION_ACK + 1\<close> octets each.
\<close>

record BSC_ADDRESS_RESOLUTION =
  used :: bool
  vmac :: BACNET_SC_VMAC_ADDRESS
  utf8_urls :: "string list"
  urls_num :: int
  fresh_timer :: mstimer

text \<open>
  \<^verbatim>\<open>struct BSC_Node\<close>. A handle is the address of a sub-component, \<open>None\<close> the
  null handle; \<^verbatim>\<open>resolution\<close> is the node's row of the resolution table, of
  \<^verbatim>\<open>BSC_CONF_SERVER_DIRECT_CONNECTIONS_MAX_NUM\<close> entries.
\<close>

record BSC_Node =
  used :: bool
  state :: BSC_NODE_STATE
  conf :: BSC_NODE_CONF
  resolution :: "BSC_ADDRESS_RESOLUTION list"
  hub_connector :: "nat option"
  hub_function :: "nat option"
  node_switch :: "nat option"

text \<open>The arguments of the four encoders of \<^verbatim>\<open>bvlc-sc.h\<close> the node calls.\<close>

datatype bvlc_sc_encode_call =
    Encode_result "16 word" "BACNET_SC_VMAC_ADDRESS option" "BACNET_SC_VMAC_ADDRESS option"
      BVLC_SC_MESSAGE_TYPE nat "8 word option" BACNET_ERROR_CLASS BACNET_ERROR_CODE string
  | Encode_advertisiment "16 word" "BACNET_SC_VMAC_ADDRESS option" "BACNET_SC_VMAC_ADDRESS option"
      BVLC_SC_HUB_CONNECTION_STATUS BVLC_SC_DIRECT_CONNECTION_SUPPORT "16 word" "16 word"
  | Encode_address_resolution_ack "16 word" "BACNET_SC_VMAC_ADDRESS option"
      "BACNET_SC_VMAC_ADDRESS option" string nat
  | Encode_address_resolution "16 word" "BACNET_SC_VMAC_ADDRESS option"
      "BACNET_SC_VMAC_ADDRESS option"

text \<open>
  Every call the node makes out of the module, in order: to the three sub-components and
  to the owner's \<^verbatim>\<open>event_func\<close>.
\<close>

datatype node_call =
    Call_hub_connector_start BSC_NODE_CONF
  | Call_hub_function_start BSC_NODE_CONF
  | Call_node_switch_start BSC_NODE_CONF
  | Call_hub_connector_stop "nat option"
  | Call_hub_function_stop "nat option"
  | Call_node_switch_stop "nat option"
  | Call_hub_connector_send "nat option" octets nat
  | Call_node_switch_send "nat option" octets nat
  | Call_node_switch_process_address_resolution "nat option" BSC_ADDRESS_RESOLUTION
  | Call_node_event_func BSC_NODE_EVENT "octets option" nat

record node_world = world +
  node :: BSC_Node
  out :: "node_call list"

text \<open>
  What the code outside the module answers to the node: the sub-components (a start
  returns its code and the handle it stores), the random generator, the encoders (the
  octets written to the buffer; none when the encoder returns 0), the timer functions and
  the compile-time constant of the parser.
\<close>

record node_env =
  ext_hub_connector_start :: "BSC_NODE_CONF \<Rightarrow> BSC_SC_RET \<times> nat option"
  ext_hub_function_start :: "BSC_NODE_CONF \<Rightarrow> BSC_SC_RET \<times> nat option"
  ext_node_switch_start :: "BSC_NODE_CONF \<Rightarrow> BSC_SC_RET \<times> nat option"
  ext_hub_connector_stopped :: "nat option \<Rightarrow> bool"
  ext_hub_function_stopped :: "nat option \<Rightarrow> bool"
  ext_hub_function_started :: "nat option \<Rightarrow> bool"
  ext_node_switch_stopped :: "nat option \<Rightarrow> bool"
  ext_node_switch_started :: "nat option \<Rightarrow> bool"
  ext_hub_connector_send :: "nat option \<Rightarrow> octets \<Rightarrow> nat \<Rightarrow> BSC_SC_RET"
  ext_node_switch_send :: "nat option \<Rightarrow> octets \<Rightarrow> nat \<Rightarrow> BSC_SC_RET"
  ext_hub_connector_status :: "nat option \<Rightarrow> BVLC_SC_HUB_CONNECTION_STATUS"
  ext_generate_random_vmac :: "BACNET_SC_VMAC_ADDRESS \<Rightarrow> BACNET_SC_VMAC_ADDRESS"
  ext_need_send_bvlc_result :: "BVLC_SC_DECODED_MESSAGE \<Rightarrow> bool"
  ext_bvlc_sc_encode :: "bvlc_sc_encode_call \<Rightarrow> octets"
  ext_get_next_message_id :: "16 word"
  ext_mstimer_restart :: "mstimer \<Rightarrow> mstimer"
  ext_mstimer_expired :: "mstimer \<Rightarrow> bool"
  BSC_CONF_NODE_MAX_URI_SIZE_IN_ADDRESS_RESOLUTION_ACK :: int

definition node_call :: "node_call \<Rightarrow> node_world \<Rightarrow> node_world" where
  "node_call c w = w\<lparr>out := out w @ [c]\<rparr>"

definition node_set_state :: "BSC_NODE_STATE \<Rightarrow> node_world \<Rightarrow> node_world" where
  "node_set_state s w = w\<lparr>node := (node w)\<lparr>BSC_Node.state := s\<rparr>\<rparr>"

definition node_state :: "node_world \<Rightarrow> BSC_NODE_STATE" where
  "node_state w = BSC_Node.state (node w)"

text \<open>
  \<^verbatim>\<open>node_get_address_resolution\<close> and \<^verbatim>\<open>node_alloc_address_resolution\<close>: the
  entry returned is named by its index in the table, counted from \<open>i\<close>.
\<close>

fun node_get_address_resolution ::
  "BSC_ADDRESS_RESOLUTION list \<Rightarrow> nat \<Rightarrow> BACNET_SC_VMAC_ADDRESS \<Rightarrow> nat option" where
  "node_get_address_resolution [] i v = None"
| "node_get_address_resolution (r # rs) i v =
     (if BSC_ADDRESS_RESOLUTION.used r \<and> v = vmac r then Some i
      else node_get_address_resolution rs (Suc i) v)"

fun node_alloc_address_resolution ::
  "BSC_ADDRESS_RESOLUTION list \<Rightarrow> nat \<Rightarrow> BACNET_SC_VMAC_ADDRESS
     \<Rightarrow> (nat \<times> BSC_ADDRESS_RESOLUTION list) option" where
  "node_alloc_address_resolution [] i v = None"
| "node_alloc_address_resolution (r # rs) i v =
     (if \<not> BSC_ADDRESS_RESOLUTION.used r
      then Some (i, r\<lparr>BSC_ADDRESS_RESOLUTION.used := True, vmac := v\<rparr> # rs)
      else (case node_alloc_address_resolution rs (Suc i) v of
              None \<Rightarrow> None
            | Some (k, rs') \<Rightarrow> Some (k, r # rs')))"

text \<open>
  The two aggregate tests of \<^verbatim>\<open>bsc_node_process_stop_event\<close> and
  \<^verbatim>\<open>bsc_node_process_start_event\<close>: the value of the local \<^verbatim>\<open>stopped\<close>
  (\<^verbatim>\<open>started\<close>) after the tests of the source, each of which can only clear it.
\<close>

definition node_stopped :: "node_env \<Rightarrow> BSC_Node \<Rightarrow> bool" where
  "node_stopped env n =
     (let stopped = True;
          stopped = (if hub_function_enabled (conf n)
                     then (if hub_function n \<noteq> None \<and>
                              \<not> ext_hub_function_stopped env (hub_function n)
                           then False else stopped)
                     else stopped);
          stopped = (if node_switch n \<noteq> None \<and> node_switch_enabled (conf n)
                     then (if \<not> ext_node_switch_stopped env (node_switch n)
                           then False else stopped)
                     else stopped);
          stopped = (if hub_connector n \<noteq> None \<and>
                        \<not> ext_hub_connector_stopped env (hub_connector n)
                     then False else stopped)
      in stopped)"

definition node_started :: "node_env \<Rightarrow> BSC_Node \<Rightarrow> bool" where
  "node_started env n =
     (let started = True;
          started = (if hub_function n \<noteq> None \<and> hub_function_enabled (conf n)
                     then (if \<not> ext_hub_function_started env (hub_function n)
                           then False else started)
                     else started);
          started = (if node_switch n \<noteq> None \<and> node_switch_enabled (conf n)
                     then (if \<not> ext_node_switch_started env (node_switch n)
                           then False else started)
                     else started)
      in started)"

text \<open>
  \<^verbatim>\<open>memset(node->resolution, 0, ...)\<close>: every octet of every entry becomes zero.
\<close>

definition memset_resolution :: "BSC_ADDRESS_RESOLUTION \<Rightarrow> BSC_ADDRESS_RESOLUTION" where
  "memset_resolution r =
     \<lparr>BSC_ADDRESS_RESOLUTION.used = False,
      vmac = map (\<lambda>_. 0) (vmac r),
      utf8_urls = map (map (\<lambda>_. CHR 0x00)) (utf8_urls r),
      urls_num = 0,
      fresh_timer = \<lparr>mstimer_start = 0, mstimer_interval = 0\<rparr>\<rparr>"

text \<open>
  The three calls that start a sub-component: the call returns its code, and stores the
  handle through the pointer it was given (\<^verbatim>\<open>&node->hub_connector\<close> and so on).
\<close>

definition call_hub_connector_start :: "node_env \<Rightarrow> node_world \<Rightarrow> BSC_SC_RET \<times> node_world" where
  "call_hub_connector_start env w =
     (fst (ext_hub_connector_start env (conf (node w))),
      node_call (Call_hub_connector_start (conf (node w)))
        (w\<lparr>node := (node w)\<lparr>hub_connector :=
                                snd (ext_hub_connector_start env (conf (node w)))\<rparr>\<rparr>))"

definition call_hub_function_start :: "node_env \<Rightarrow> node_world \<Rightarrow> BSC_SC_RET \<times> node_world" where
  "call_hub_function_start env w =
     (fst (ext_hub_function_start env (conf (node w))),
      node_call (Call_hub_function_start (conf (node w)))
        (w\<lparr>node := (node w)\<lparr>hub_function :=
                                snd (ext_hub_function_start env (conf (node w)))\<rparr>\<rparr>))"

definition call_node_switch_start :: "node_env \<Rightarrow> node_world \<Rightarrow> BSC_SC_RET \<times> node_world" where
  "call_node_switch_start env w =
     (fst (ext_node_switch_start env (conf (node w))),
      node_call (Call_node_switch_start (conf (node w)))
        (w\<lparr>node := (node w)\<lparr>node_switch :=
                                snd (ext_node_switch_start env (conf (node w)))\<rparr>\<rparr>))"

text \<open>
  \<^verbatim>\<open>bsc_node_start_state\<close>, in the order of the source: the part from
  \<^verbatim>\<open>if (node->conf->node_switch_enabled)\<close> to the end, the part from
  \<^verbatim>\<open>if (node->conf->hub_function_enabled)\<close> on, and the function. \<open>ret\<close> is the
  value of the local \<^verbatim>\<open>ret\<close> when the part is entered.
\<close>

definition start_state_node_switch ::
  "node_env \<Rightarrow> BSC_SC_RET \<Rightarrow> node_world \<Rightarrow> BSC_SC_RET \<times> node_world" where
  "start_state_node_switch env ret w =
     (if node_switch_enabled (conf (node w)) then
        (case call_node_switch_start env w of
           (ret', w') \<Rightarrow>
             if ret' \<noteq> BSC_SC_SUCCESS
             then (ret',
                   bsc_global_mutex_unlock
                     (node_call (Call_hub_function_stop (hub_function (node w')))
                        (node_call (Call_hub_connector_stop (hub_connector (node w')))
                           (node_set_state BSC_NODE_STATE_IDLE w'))))
             else (ret', bsc_global_mutex_unlock w'))
      else (ret, bsc_global_mutex_unlock w))"

definition start_state_hub_function ::
  "node_env \<Rightarrow> BSC_SC_RET \<Rightarrow> node_world \<Rightarrow> BSC_SC_RET \<times> node_world" where
  "start_state_hub_function env ret w =
     (if hub_function_enabled (conf (node w)) then
        (case call_hub_function_start env w of
           (ret', w') \<Rightarrow>
             if ret' \<noteq> BSC_SC_SUCCESS
             then (ret',
                   bsc_global_mutex_unlock
                     (node_call (Call_hub_connector_stop (hub_connector (node w')))
                        (node_set_state BSC_NODE_STATE_IDLE w')))
             else start_state_node_switch env ret' w')
      else start_state_node_switch env ret w)"

definition bsc_node_start_state ::
  "node_env \<Rightarrow> BSC_NODE_STATE \<Rightarrow> node_world \<Rightarrow> BSC_SC_RET \<times> node_world" where
  "bsc_node_start_state env st w =
     (let w1 = bsc_global_mutex_lock w;
          w2 = w1\<lparr>node := (node w1)\<lparr>BSC_Node.state := st, hub_connector := None,
                                     hub_function := None, node_switch := None\<rparr>\<rparr>;
          w3 = (if node_state w2 \<noteq> BSC_NODE_STATE_RESTARTING
                then w2\<lparr>node := (node w2)
                         \<lparr>resolution := map memset_resolution (resolution (node w2))\<rparr>\<rparr>
                else w2\<lparr>node := (node w2)
                         \<lparr>conf := (conf (node w2))
                            \<lparr>BSC_NODE_CONF.local_vmac :=
                               ext_generate_random_vmac env
                                 (BSC_NODE_CONF.local_vmac (conf (node w2)))\<rparr>\<rparr>\<rparr>)
      in case call_hub_connector_start env w3 of
           (ret, w4) \<Rightarrow>
             if ret \<noteq> BSC_SC_SUCCESS
             then (ret, bsc_global_mutex_unlock (node_set_state BSC_NODE_STATE_IDLE w4))
             else start_state_hub_function env ret w4)"

definition bsc_node_process_stop_event :: "node_env \<Rightarrow> node_world \<Rightarrow> node_world" where
  "bsc_node_process_stop_event env w =
     (let stopped = node_stopped env (node w) in
      if node_state w = BSC_NODE_STATE_STOPPING then
        (if stopped
         then node_call (Call_node_event_func BSC_NODE_EVENT_STOPPED None 0)
                (node_set_state BSC_NODE_STATE_IDLE w)
         else w)
      else if node_state w = BSC_NODE_STATE_RESTARTING then
        (if stopped then snd (bsc_node_start_state env BSC_NODE_STATE_RESTARTING w) else w)
      else w)"

definition bsc_node_process_start_event :: "node_env \<Rightarrow> node_world \<Rightarrow> node_world" where
  "bsc_node_process_start_event env w =
     (let started = node_started env (node w) in
      if started then
        (if node_state w = BSC_NODE_STATE_STARTING
         then node_call (Call_node_event_func BSC_NODE_EVENT_STARTED None 0)
                (node_set_state BSC_NODE_STATE_STARTED w)
         else if node_state w = BSC_NODE_STATE_RESTARTING
         then node_call (Call_node_event_func BSC_NODE_EVENT_RESTARTED None 0)
                (node_set_state BSC_NODE_STATE_STARTED w)
         else w)
      else w)"

definition bsc_node_restart :: "node_world \<Rightarrow> node_world" where
  "bsc_node_restart w =
     (let w1 = node_set_state BSC_NODE_STATE_RESTARTING w;
          w2 = node_call (Call_hub_connector_stop (hub_connector (node w1))) w1;
          w3 = (if hub_function (node w2) \<noteq> None \<and> hub_function_enabled (conf (node w2))
                then node_call (Call_hub_function_stop (hub_function (node w2))) w2
                else w2);
          w4 = (if node_switch_enabled (conf (node w3))
                then node_call (Call_node_switch_stop (node_switch (node w3))) w3
                else w3)
      in w4)"

text \<open>
  \<^verbatim>\<open>bsc_node_start\<close> and \<^verbatim>\<open>bsc_node_stop\<close>; \<open>p_node\<close> says that the
  pointer argument is not null (it then points to the node of the world).
\<close>

definition bsc_node_start :: "node_env \<Rightarrow> bool \<Rightarrow> node_world \<Rightarrow> BSC_SC_RET \<times> node_world" where
  "bsc_node_start env p_node w =
     (if \<not> p_node then (BSC_SC_BAD_PARAM, w)
      else
        (let w1 = bsc_global_mutex_lock w in
         if node_state w1 \<noteq> BSC_NODE_STATE_IDLE
         then (BSC_SC_INVALID_OPERATION, bsc_global_mutex_unlock w1)
         else (case bsc_node_start_state env BSC_NODE_STATE_STARTING w1 of
                 (ret, w2) \<Rightarrow> (ret, bsc_global_mutex_unlock w2))))"

definition bsc_node_stop :: "bool \<Rightarrow> node_world \<Rightarrow> node_world" where
  "bsc_node_stop p_node w =
     (if p_node then
        (let w1 = bsc_global_mutex_lock w;
             w2 = (if node_state w1 \<noteq> BSC_NODE_STATE_IDLE then
                     (let w3 = node_call (Call_hub_connector_stop (hub_connector (node w1)))
                                 (node_set_state BSC_NODE_STATE_STOPPING w1);
                          w4 = (if hub_function_enabled (conf (node w3))
                                then node_call (Call_hub_function_stop (hub_function (node w3))) w3
                                else w3);
                          w5 = (if node_switch_enabled (conf (node w4))
                                then node_call (Call_node_switch_stop (node_switch (node w4))) w4
                                else w4)
                      in w5)
                   else w1)
         in bsc_global_mutex_unlock w2)
      else w)"

text \<open>
  \<^verbatim>\<open>bsc_node_send\<close>; \<open>p_node\<close> says that the pointer argument is not null (it then
  points to the node of the world).
\<close>

definition bsc_node_send ::
  "node_env \<Rightarrow> bool \<Rightarrow> octets \<Rightarrow> nat \<Rightarrow> node_world \<Rightarrow> BSC_SC_RET \<times> node_world" where
  "bsc_node_send env p_node pdu pdu_len w =
     (if \<not> p_node then (BSC_SC_BAD_PARAM, w)
      else
        (let w1 = bsc_global_mutex_lock w in
         if node_state w1 \<noteq> BSC_NODE_STATE_STARTED
         then (BSC_SC_INVALID_OPERATION, bsc_global_mutex_unlock w1)
         else if node_switch_enabled (conf (node w1))
         then (ext_node_switch_send env (node_switch (node w1)) pdu pdu_len,
               bsc_global_mutex_unlock
                 (node_call (Call_node_switch_send (node_switch (node w1)) pdu pdu_len) w1))
         else (ext_hub_connector_send env (hub_connector (node w1)) pdu pdu_len,
               bsc_global_mutex_unlock
                 (node_call (Call_hub_connector_send (hub_connector (node w1)) pdu pdu_len) w1))))"

text \<open>
  The scan of the destination options at the head of
  \<^verbatim>\<open>bsc_node_process_received\<close>. The result says whether the function returned
  from inside the loop; that \<^verbatim>\<open>return\<close> stands inside the test of
  \<^verbatim>\<open>bvlc_sc_need_send_bvlc_result\<close>.
\<close>

fun must_understand_scan ::
  "node_env \<Rightarrow> BVLC_SC_DECODED_MESSAGE \<Rightarrow> BVLC_SC_DECODED_HDR_OPTION list \<Rightarrow> node_world
     \<Rightarrow> bool \<times> node_world" where
  "must_understand_scan env d [] w = (False, w)"
| "must_understand_scan env d (opt # opts) w =
     (if must_understand opt then
        (if ext_need_send_bvlc_result env d then
           (let buf = ext_bvlc_sc_encode env
                        (Encode_result (message_id d) (origin d) (dest d) (bvlc_function d) 1
                           (Some (packed_header_marker opt)) ERROR_CLASS_COMMUNICATION
                           ERROR_CODE_HEADER_NOT_UNDERSTOOD ERROR_STR_OPTION_NOT_UNDERSTOOD)
            in (True, if length buf \<noteq> 0
                      then snd (bsc_node_send env True buf (length buf) w)
                      else w))
         else must_understand_scan env d opts w)
      else must_understand_scan env d opts w)"

text \<open>
  The two stores of the URL parser: \<^verbatim>\<open>memcpy(&r->utf8_urls[j][0], &string[start],
  i - start)\<close> and \<^verbatim>\<open>r->utf8_urls[j][i] = 0\<close>. A store outside the array is
  undefined in C: \<open>None\<close>.
\<close>

definition store_url :: "string list \<Rightarrow> int \<Rightarrow> string \<Rightarrow> int \<Rightarrow> int \<Rightarrow> string list option" where
  "store_url urls j str start i =
     (if 0 \<le> j \<and> nat j < length urls \<and> 0 \<le> start \<and> start \<le> i \<and>
         nat i < length (urls ! nat j) \<and> nat i \<le> length str
      then Some (urls[nat j :=
                   (take (nat (i - start)) (drop (nat start) str) @
                    drop (nat (i - start)) (urls ! nat j))[nat i := CHR 0x00]])
      else None)"

text \<open>
  The \<^verbatim>\<open>for\<close> loop of the ADDRESS_RESOLUTION_ACK case, from the index \<open>i\<close> on:
  it returns \<open>i\<close>, \<open>j\<close>, \<open>start\<close> and the rows at the exit. The test is
  \<^verbatim>\<open>i == 0x20\<close>, on the index, as in the source.
\<close>

function ack_loop ::
  "int \<Rightarrow> string \<Rightarrow> int \<Rightarrow> int \<Rightarrow> int \<Rightarrow> string list \<Rightarrow> (int \<times> int \<times> int \<times> string list) option" where
  "ack_loop cap str i j start urls =
     (if i < int (length str) then
        (if i = 0x20 then
           (if i > cap \<or> i - start = 0
            then ack_loop cap str (i + 1) j (i + 1) urls
            else (case store_url urls j str start i of
                    None \<Rightarrow> None
                  | Some urls' \<Rightarrow> ack_loop cap str (i + 1) (j + 1) (i + 1) urls'))
         else ack_loop cap str (i + 1) j start urls)
      else Some (i, j, start, urls))"
  by pat_completeness auto
termination
  by (relation "measure (\<lambda>(cap, str, i, j, start, urls). nat (int (length str) - i))") auto

text \<open>
  The whole parse of an ack into the entry \<open>r\<close>: the loop, the store of the last URL,
  \<^verbatim>\<open>urls_num\<close>.
\<close>

definition parse_address_resolution_ack ::
  "int \<Rightarrow> string \<Rightarrow> BSC_ADDRESS_RESOLUTION \<Rightarrow> BSC_ADDRESS_RESOLUTION option" where
  "parse_address_resolution_ack cap str r =
     (case ack_loop cap str 0 0 0 (utf8_urls (r\<lparr>urls_num := 0\<rparr>)) of
        None \<Rightarrow> None
      | Some (i, j, start, urls) \<Rightarrow>
          (if i - start > 0 \<and> i \<le> cap
           then (case store_url urls j str start i of
                   None \<Rightarrow> None
                 | Some urls' \<Rightarrow> Some (r\<lparr>utf8_urls := urls', urls_num := j + 1\<rparr>))
           else Some (r\<lparr>utf8_urls := urls, urls_num := j\<rparr>)))"

text \<open>The URL a row holds: the octets before the first NUL.\<close>

definition url_of_row :: "string \<Rightarrow> string" where
  "url_of_row row = takeWhile (\<lambda>c. c \<noteq> CHR 0x00) row"

definition stored_urls :: "BSC_ADDRESS_RESOLUTION \<Rightarrow> string list" where
  "stored_urls r = map url_of_row (take (nat (urls_num r)) (utf8_urls r))"

text \<open>
  \<^verbatim>\<open>bsc_node_process_received\<close>: the \<^verbatim>\<open>switch\<close> on the BVLC function, and the
  function, which runs the scan first. \<open>None\<close> is undefined behaviour of the C code: a
  null \<^verbatim>\<open>hdr.origin\<close> handed to \<^verbatim>\<open>memcmp\<close>, or a store outside the rows.
\<close>

definition process_received_switch ::
  "node_env \<Rightarrow> octets option \<Rightarrow> nat \<Rightarrow> BVLC_SC_DECODED_MESSAGE \<Rightarrow> node_world
     \<Rightarrow> node_world option" where
  "process_received_switch env pdu pdu_len d w =
        (case bvlc_function d of
           BVLC_SC_RESULT \<Rightarrow>
             (if payload_result_bvlc_function d = BVLC_SC_ADDRESS_RESOLUTION then
                (case origin d of
                   None \<Rightarrow> None
                 | Some v \<Rightarrow>
                     (case node_get_address_resolution (resolution (node w)) 0 v of
                        Some k \<Rightarrow>
                          Some (w\<lparr>node := (node w)\<lparr>resolution := (resolution (node w))
                                   [k := (resolution (node w) ! k)
                                      \<lparr>urls_num := 0,
                                       fresh_timer := ext_mstimer_restart env
                                         (fresh_timer (resolution (node w) ! k))\<rparr>]\<rparr>\<rparr>)
                      | None \<Rightarrow>
                          (case node_alloc_address_resolution (resolution (node w)) 0 v of
                             Some (k, rs) \<Rightarrow>
                               Some (w\<lparr>node := (node w)\<lparr>resolution := rs
                                        [k := (rs ! k)
                                           \<lparr>urls_num := 0,
                                            fresh_timer := ext_mstimer_restart env
                                              (fresh_timer (rs ! k))\<rparr>]\<rparr>\<rparr>)
                           | None \<Rightarrow> Some w)))
              else Some w)
         | BVLC_SC_ADVERTISIMENT \<Rightarrow> Some w
         | BVLC_SC_ADVERTISIMENT_SOLICITATION \<Rightarrow>
             (let buf = ext_bvlc_sc_encode env
                          (Encode_advertisiment (ext_get_next_message_id env) None (origin d)
                             (ext_hub_connector_status env (hub_connector (node w)))
                             (if node_switch_enabled (conf (node w))
                              then BVLC_SC_DIRECT_CONNECTIONS_ACCEPT_SUPPORTED
                              else BVLC_SC_DIRECT_CONNECTIONS_ACCEPT_UNSUPPORTED)
                             (BSC_NODE_CONF.max_local_bvlc_len (conf (node w)))
                             (BSC_NODE_CONF.max_local_npdu_len (conf (node w))))
              in Some (if length buf \<noteq> 0
                       then snd (bsc_node_send env True buf (length buf) w) else w))
         | BVLC_SC_ADDRESS_RESOLUTION \<Rightarrow>
             (let buf =
                    (if node_switch_enabled (conf (node w))
                     then ext_bvlc_sc_encode env
                            (Encode_address_resolution_ack (message_id d) (origin d) (dest d)
                               (direct_connection_accept_uris (conf (node w)))
                               (direct_connection_accept_uris_len (conf (node w))))
                     else ext_bvlc_sc_encode env
                            (Encode_result (message_id d) (origin d) (dest d) (bvlc_function d) 1
                               None ERROR_CLASS_COMMUNICATION
                               ERROR_CODE_OPTIONAL_FUNCTIONALITY_NOT_SUPPORTED
                               ERROR_STR_DIRECT_CONNECTIONS_NOT_SUPPORTED))
              in Some (if length buf \<noteq> 0
                       then snd (bsc_node_send env True buf (length buf) w) else w))
         | BVLC_SC_ADDRESS_RESOLUTION_ACK \<Rightarrow>
             (case origin d of
                None \<Rightarrow> None
              | Some v \<Rightarrow>
                  (let found =
                         (case node_get_address_resolution (resolution (node w)) 0 v of
                            Some k \<Rightarrow> Some (k, resolution (node w))
                          | None \<Rightarrow> node_alloc_address_resolution (resolution (node w)) 0 v)
                   in case found of
                        None \<Rightarrow> Some w
                      | Some (k, rs) \<Rightarrow>
                          (case parse_address_resolution_ack
                                  (BSC_CONF_NODE_MAX_URI_SIZE_IN_ADDRESS_RESOLUTION_ACK env)
                                  (payload_utf8_websocket_uri_string d) (rs ! k) of
                             None \<Rightarrow> None
                           | Some r \<Rightarrow>
                               (let r' = r\<lparr>fresh_timer :=
                                            ext_mstimer_restart env (fresh_timer r)\<rparr>
                                in Some (node_call
                                           (Call_node_switch_process_address_resolution
                                              (node_switch (node w)) r')
                                           (w\<lparr>node := (node w)\<lparr>resolution := rs[k := r']\<rparr>\<rparr>))))))
         | BVLC_SC_ENCAPSULATED_NPDU \<Rightarrow>
             Some (node_call (Call_node_event_func BSC_NODE_EVENT_RECEIVED pdu pdu_len) w)
         | _ \<Rightarrow> Some w)"

definition bsc_node_process_received ::
  "node_env \<Rightarrow> octets option \<Rightarrow> nat \<Rightarrow> BVLC_SC_DECODED_MESSAGE \<Rightarrow> node_world
     \<Rightarrow> node_world option" where
  "bsc_node_process_received env pdu pdu_len d w =
     (let scan = must_understand_scan env d (dest_options d) w in
      if fst scan then Some (snd scan)
      else process_received_switch env pdu pdu_len d (snd scan))"

text \<open>
  The three callbacks the node registers with its sub-components. The handle \<open>h\<close> is
  not read. A RECEIVED event comes with the decoded message.
\<close>

definition bsc_hub_connector_event ::
  "node_env \<Rightarrow> BSC_HUB_CONNECTOR_EVENT \<Rightarrow> nat option \<Rightarrow> octets option \<Rightarrow> nat
     \<Rightarrow> BVLC_SC_DECODED_MESSAGE option \<Rightarrow> node_world \<Rightarrow> node_world option" where
  "bsc_hub_connector_event env ev h pdu pdu_len decoded_pdu w =
     (let w1 = bsc_global_mutex_lock w;
          w2 =
            (if ev = BSC_HUBC_EVENT_STOPPED then
               Some (bsc_node_process_stop_event env (w1\<lparr>node := (node w1)\<lparr>hub_connector := None\<rparr>\<rparr>))
             else if ev = BSC_HUBC_EVENT_ERROR_DUPLICATED_VMAC then
               Some (if node_state w1 \<noteq> BSC_NODE_STATE_STOPPING \<and>
                        node_state w1 \<noteq> BSC_NODE_STATE_RESTARTING
                     then bsc_node_restart w1 else w1)
             else if ev = BSC_HUBC_EVENT_RECEIVED then
               (case decoded_pdu of
                  None \<Rightarrow> None
                | Some d \<Rightarrow> bsc_node_process_received env pdu pdu_len d w1)
             else Some w1)
      in map_option bsc_global_mutex_unlock w2)"

definition bsc_hub_function_event ::
  "node_env \<Rightarrow> BSC_HUB_FUNCTION_EVENT \<Rightarrow> nat option \<Rightarrow> node_world \<Rightarrow> node_world" where
  "bsc_hub_function_event env ev h w =
     (let w1 = bsc_global_mutex_lock w;
          w2 =
            (if ev = BSC_HUBF_EVENT_STARTED then
               bsc_node_process_start_event env w1
             else if ev = BSC_HUBF_EVENT_STOPPED then
               bsc_node_process_stop_event env (w1\<lparr>node := (node w1)\<lparr>hub_function := None\<rparr>\<rparr>)
             else if ev = BSC_HUBF_EVENT_ERROR_DUPLICATED_VMAC then
               (if node_state w1 \<noteq> BSC_NODE_STATE_STOPPING \<and>
                   node_state w1 \<noteq> BSC_NODE_STATE_RESTARTING
                then bsc_node_restart w1 else w1)
             else w1)
      in bsc_global_mutex_unlock w2)"

definition bsc_node_switch_event ::
  "node_env \<Rightarrow> BSC_NODE_SWITCH_EVENT \<Rightarrow> nat option \<Rightarrow> octets option \<Rightarrow> nat
     \<Rightarrow> BVLC_SC_DECODED_MESSAGE option \<Rightarrow> node_world \<Rightarrow> node_world option" where
  "bsc_node_switch_event env ev h pdu pdu_len decoded_pdu w =
     (let w1 = bsc_global_mutex_lock w;
          w2 =
            (if ev = BSC_NODE_SWITCH_EVENT_STARTED then
               Some (bsc_node_process_start_event env w1)
             else if ev = BSC_NODE_SWITCH_EVENT_STOPPED then
               Some (bsc_node_process_stop_event env (w1\<lparr>node := (node w1)\<lparr>node_switch := None\<rparr>\<rparr>))
             else if ev = BSC_NODE_SWITCH_EVENT_DUPLICATED_VMAC then
               Some (if node_state w1 \<noteq> BSC_NODE_STATE_STOPPING \<and>
                        node_state w1 \<noteq> BSC_NODE_STATE_RESTARTING
                     then bsc_node_restart w1 else w1)
             else if ev = BSC_NODE_SWITCH_EVENT_RECEIVED then
               (case decoded_pdu of
                  None \<Rightarrow> None
                | Some d \<Rightarrow> bsc_node_process_received env pdu pdu_len d w1)
             else Some w1)
      in map_option bsc_global_mutex_unlock w2)"

text \<open>
  \<^verbatim>\<open>bsc_node_get_address_resolution\<close>: the loop, from the index \<open>i\<close> on, and the
  function. The entry returned is named by its index; the world is returned too, so that
  what the call leaves behind can be compared with what it found.
\<close>

fun get_address_resolution_loop ::
  "node_env \<Rightarrow> BSC_ADDRESS_RESOLUTION list \<Rightarrow> nat \<Rightarrow> BACNET_SC_VMAC_ADDRESS \<Rightarrow> nat option" where
  "get_address_resolution_loop env [] i v = None"
| "get_address_resolution_loop env (r # rs) i v =
     (if BSC_ADDRESS_RESOLUTION.used r \<and> v = vmac r
      then (if \<not> ext_mstimer_expired env (fresh_timer r) then Some i else None)
      else get_address_resolution_loop env rs (Suc i) v)"

definition bsc_node_get_address_resolution ::
  "node_env \<Rightarrow> BACNET_SC_VMAC_ADDRESS option \<Rightarrow> node_world \<Rightarrow> nat option \<times> node_world" where
  "bsc_node_get_address_resolution env v w =
     (let w1 = bsc_global_mutex_lock w in
      case v of
        None \<Rightarrow> (None, bsc_global_mutex_unlock w1)
      | Some a \<Rightarrow>
          (if node_state w1 \<noteq> BSC_NODE_STATE_STARTED
           then (None, bsc_global_mutex_unlock w1)
           else (get_address_resolution_loop env (resolution (node w1)) 0 a,
                 bsc_global_mutex_unlock w1)))"

section \<open>Scenarios and concrete worlds\<close>

text \<open>
  One round of the connector with both hubs unreachable, from CONNECTING-PRIMARY: the
  primary socket disconnects with cause \<open>e1\<close>, the failover socket with cause
  \<open>e2\<close>, then the runloop ticks.
\<close>

definition unreachable_round ::
  "hub_connector_env \<Rightarrow> BSC_SC_RET \<Rightarrow> BSC_SC_RET \<Rightarrow> hub_connector_world \<Rightarrow> hub_connector_world" where
  "unreachable_round env e1 e2 w =
     hub_connector_process_state env
       (hub_connector_socket_event env BSC_HUB_CONN_FAILOVER BSC_SOCKET_EVENT_DISCONNECTED e2 None 0
          (hub_connector_socket_event env BSC_HUB_CONN_PRIMARY BSC_SOCKET_EVENT_DISCONNECTED e1 None 0 w))"

text \<open>
  A transport that accepts every request and a timer that has expired at every tick; the
  same transport refusing every connect.
\<close>

definition hc_env_accept :: hub_connector_env where
  "hc_env_accept =
     \<lparr>bsc_connect = (\<lambda>_ _. BSC_SC_SUCCESS),
      bsc_send = (\<lambda>_ _ _. BSC_SC_SUCCESS),
      bsc_runloop_reg = BSC_SC_SUCCESS,
      bsc_init_ctx = BSC_SC_SUCCESS,
      mstimer_set = (\<lambda>tm i. tm\<lparr>mstimer_interval := unat i\<rparr>),
      mstimer_expired = (\<lambda>_. True),
      BSC_WSURL_MAX_LEN = 128\<rparr>"

definition hc_env_refuse :: hub_connector_env where
  "hc_env_refuse = hc_env_accept\<lparr>bsc_connect := (\<lambda>_ _. BSC_SC_NO_RESOURCES)\<rparr>"

definition hc_world_idle :: hub_connector_world where
  "hc_world_idle =
     \<lparr>mutex = 0,
      bsc_hub_connector =
        \<lparr>cfg = None, state = BSC_HUB_CONNECTOR_STATE_IDLE, hc_reconnect_timeout_s = 0,
         primary_url = [], failover_url = [],
         t = \<lparr>mstimer_start = 0, mstimer_interval = 0\<rparr>,
         hc_event_func = None, error = BSC_SC_SUCCESS\<rparr>,
      bsc_hub_connector_started = False,
      calls = []\<rparr>"

definition hc_args_example :: hub_connector_start_args where
  "hc_args_example =
     \<lparr>ca_cert_chain = Some [1], ca_cert_chain_size = 1,
      cert_chain = Some [2], cert_chain_size = 1,
      key = Some [3], key_size = 1,
      local_uuid = Some [0, 1, 2, 3, 4, 5, 6, 7, 8, 9, 10, 11, 12, 13, 14, 15],
      local_vmac = Some [2, 0, 0, 0, 0, 1],
      max_local_bvlc_len = 1440, max_local_npdu_len = 1400,
      connect_timeout_s = 5, heartbeat_timeout_s = 30, disconnect_timeout_s = 5,
      primaryURL = Some ''wss://p:9999'', failoverURL = Some ''wss://f:9999'',
      reconnect_timeout_s = 5, event_func = Some 1\<rparr>"

text \<open>The connector after a successful start (CONNECTING-PRIMARY), then connected.\<close>

definition hc_world_connecting :: hub_connector_world where
  "hc_world_connecting = snd (bsc_hub_connector_start hc_env_accept hc_args_example hc_world_idle)"

definition hc_world_connected :: hub_connector_world where
  "hc_world_connected =
     hub_connector_socket_event hc_env_accept BSC_HUB_CONN_PRIMARY BSC_SOCKET_EVENT_CONNECTED
       BSC_SC_SUCCESS None 0 hc_world_connecting"

text \<open>
  The arguments \<^verbatim>\<open>bsc_hub_connector_start\<close> accepts, with the two URLs named: no
  null pointer, no zero size, length or timeout, and each URL at most
  \<^verbatim>\<open>BSC_WSURL_MAX_LEN\<close> long.
\<close>

definition hub_connector_args_valid ::
  "hub_connector_env \<Rightarrow> hub_connector_start_args \<Rightarrow> string \<Rightarrow> string \<Rightarrow> bool" where
  "hub_connector_args_valid env a pu fu =
     (ca_cert_chain a \<noteq> None \<and> ca_cert_chain_size a \<noteq> 0 \<and> cert_chain a \<noteq> None \<and>
      cert_chain_size a \<noteq> 0 \<and> key a \<noteq> None \<and> key_size a \<noteq> 0 \<and> local_uuid a \<noteq> None \<and>
      hub_connector_start_args.local_vmac a \<noteq> None \<and>
      hub_connector_start_args.max_local_npdu_len a \<noteq> 0 \<and>
      hub_connector_start_args.max_local_bvlc_len a \<noteq> 0 \<and>
      connect_timeout_s a \<noteq> 0 \<and> heartbeat_timeout_s a \<noteq> 0 \<and> disconnect_timeout_s a \<noteq> 0 \<and>
      reconnect_timeout_s a \<noteq> 0 \<and> primaryURL a = Some pu \<and> failoverURL a = Some fu \<and>
      event_func a \<noteq> None \<and>
      length pu \<le> BSC_WSURL_MAX_LEN env \<and> length fu \<le> BSC_WSURL_MAX_LEN env)"

text \<open>The connector waiting on the failover hub, and waiting for the reconnect timer.\<close>

definition hc_world_failover :: hub_connector_world where
  "hc_world_failover =
     hub_connector_socket_event hc_env_accept BSC_HUB_CONN_PRIMARY BSC_SOCKET_EVENT_DISCONNECTED
       (BSC_SC_OTHER 1) None 0 hc_world_connecting"

definition hc_world_wait :: hub_connector_world where
  "hc_world_wait =
     hub_connector_socket_event hc_env_accept BSC_HUB_CONN_FAILOVER BSC_SOCKET_EVENT_DISCONNECTED
       (BSC_SC_OTHER 1) None 0 hc_world_failover"


text \<open>
  The aggregate predicates as the specification words them: all stopped is (hub-connector
  handle null or it reports stopped) and (hub-function not enabled or handle null or it
  reports stopped) and (node-switch not enabled or handle null or it reports stopped);
  all started is the analogous conjunction with started. The node's code never asks the
  hub connector whether it is started, so that report is a parameter here.
\<close>

definition spec_all_stopped :: "node_env \<Rightarrow> BSC_Node \<Rightarrow> bool" where
  "spec_all_stopped env nd =
     ((hub_connector nd = None \<or> ext_hub_connector_stopped env (hub_connector nd)) \<and>
      (\<not> hub_function_enabled (conf nd) \<or> hub_function nd = None \<or>
         ext_hub_function_stopped env (hub_function nd)) \<and>
      (\<not> node_switch_enabled (conf nd) \<or> node_switch nd = None \<or>
         ext_node_switch_stopped env (node_switch nd)))"

definition spec_all_started :: "(nat option \<Rightarrow> bool) \<Rightarrow> node_env \<Rightarrow> BSC_Node \<Rightarrow> bool" where
  "spec_all_started hub_connector_started env nd =
     ((hub_connector nd = None \<or> hub_connector_started (hub_connector nd)) \<and>
      (\<not> hub_function_enabled (conf nd) \<or> hub_function nd = None \<or>
         ext_hub_function_started env (hub_function nd)) \<and>
      (\<not> node_switch_enabled (conf nd) \<or> node_switch nd = None \<or>
         ext_node_switch_started env (node_switch nd)))"

text \<open>
  The node emits the event \<open>ev\<close> in going from \<open>w\<close> to \<open>w'\<close>: the call of the
  owner's callback with it is among the calls added.
\<close>

definition node_emits :: "node_world \<Rightarrow> node_world \<Rightarrow> BSC_NODE_EVENT \<Rightarrow> bool" where
  "node_emits w w' ev =
     (Call_node_event_func ev None 0 \<in> set (drop (length (out w)) (out w')))"

text \<open>
  Sub-components that accept every request and report themselves stopped and started;
  a generator that returns a fixed Random-48 address; an encoder that writes one octet;
  \<^verbatim>\<open>bvlc_sc_need_send_bvlc_result\<close> false for messages that are themselves answers.
\<close>

definition node_env_ok :: node_env where
  "node_env_ok =
     \<lparr>ext_hub_connector_start = (\<lambda>_. (BSC_SC_SUCCESS, Some 1)),
      ext_hub_function_start = (\<lambda>_. (BSC_SC_SUCCESS, Some 2)),
      ext_node_switch_start = (\<lambda>_. (BSC_SC_SUCCESS, Some 3)),
      ext_hub_connector_stopped = (\<lambda>_. True),
      ext_hub_function_stopped = (\<lambda>_. True),
      ext_hub_function_started = (\<lambda>_. True),
      ext_node_switch_stopped = (\<lambda>_. True),
      ext_node_switch_started = (\<lambda>_. True),
      ext_hub_connector_send = (\<lambda>_ _ _. BSC_SC_SUCCESS),
      ext_node_switch_send = (\<lambda>_ _ _. BSC_SC_SUCCESS),
      ext_hub_connector_status = (\<lambda>_. BVLC_SC_HUB_CONNECTION_PRIMARY_HUB_CONNECTED),
      ext_generate_random_vmac = (\<lambda>_. [0x72, 0x11, 0x22, 0x33, 0x44, 0x55]),
      ext_need_send_bvlc_result =
        (\<lambda>d. bvlc_function d \<noteq> BVLC_SC_RESULT \<and>
              bvlc_function d \<noteq> BVLC_SC_ADDRESS_RESOLUTION_ACK \<and>
              bvlc_function d \<noteq> BVLC_SC_ADVERTISIMENT),
      ext_bvlc_sc_encode = (\<lambda>_. [0]),
      ext_get_next_message_id = 1,
      ext_mstimer_restart = (\<lambda>tm. tm),
      ext_mstimer_expired = (\<lambda>_. False),
      BSC_CONF_NODE_MAX_URI_SIZE_IN_ADDRESS_RESOLUTION_ACK = 128\<rparr>"

definition node_conf_example :: BSC_NODE_CONF where
  "node_conf_example =
     \<lparr>local_vmac = [0x02, 0, 0, 0, 0, 1],
      max_local_bvlc_len = 1440, max_local_npdu_len = 1400,
      hub_function_enabled = True, node_switch_enabled = True,
      direct_connection_accept_uris = ''wss://n:4443'',
      direct_connection_accept_uris_len = 12\<rparr>"

definition resolution_zero :: BSC_ADDRESS_RESOLUTION where
  "resolution_zero =
     \<lparr>BSC_ADDRESS_RESOLUTION.used = False, vmac = [0, 0, 0, 0, 0, 0],
      utf8_urls = [replicate 129 (CHR 0x00), replicate 129 (CHR 0x00)],
      urls_num = 0,
      fresh_timer = \<lparr>mstimer_start = 0, mstimer_interval = 0\<rparr>\<rparr>"

definition node_world_idle :: node_world where
  "node_world_idle =
     \<lparr>mutex = 0,
      node = \<lparr>BSC_Node.used = True, state = BSC_NODE_STATE_IDLE, conf = node_conf_example,
              resolution = [resolution_zero, resolution_zero],
              hub_connector = None, hub_function = None, node_switch = None\<rparr>,
      out = []\<rparr>"

text \<open>
  The node after \<^verbatim>\<open>bsc_node_start\<close> (STARTING), after both STARTED events (STARTED),
  and after a duplicate VMAC reported by the hub function (RESTARTING).
\<close>

definition node_world_starting :: node_world where
  "node_world_starting = snd (bsc_node_start node_env_ok True node_world_idle)"

definition node_world_started :: node_world where
  "node_world_started =
     bsc_hub_function_event node_env_ok BSC_HUBF_EVENT_STARTED (Some 2) node_world_starting"

definition node_world_restarting :: node_world where
  "node_world_restarting =
     bsc_hub_function_event node_env_ok BSC_HUBF_EVENT_ERROR_DUPLICATED_VMAC (Some 2)
       node_world_started"

text \<open>
  The restart carried on: every sub-component is observed stopped and the start sequence
  has run again; and the started node being stopped by its owner.
\<close>

definition node_world_restart_begun :: node_world where
  "node_world_restart_begun = bsc_node_process_stop_event node_env_ok node_world_restarting"

definition node_world_stopping :: node_world where
  "node_world_stopping = bsc_node_stop True node_world_started"

text \<open>
  Messages of a peer with VMAC \<open>peer_vmac\<close>: an ADDRESS_RESOLUTION_ACK whose payload is
  two URLs separated by two spaces; a BVLC-Result NAK for an address resolution, and an
  encapsulated NPDU, each with one destination option flagged must-understand.
\<close>

definition peer_vmac :: BACNET_SC_VMAC_ADDRESS where
  "peer_vmac = [0x92, 0xA0, 0xB1, 0xC2, 0xD3, 0xE4]"

definition ack_example :: BVLC_SC_DECODED_MESSAGE where
  "ack_example =
     \<lparr>bvlc_function = BVLC_SC_ADDRESS_RESOLUTION_ACK, message_id = 7,
      origin = Some peer_vmac, dest = None, dest_options = [],
      payload_result_bvlc_function = BVLC_SC_RESULT,
      payload_utf8_websocket_uri_string = ''wss://a  wss://bbb''\<rparr>"

definition nak_must_understand_example :: BVLC_SC_DECODED_MESSAGE where
  "nak_must_understand_example =
     \<lparr>bvlc_function = BVLC_SC_RESULT, message_id = 8,
      origin = Some peer_vmac, dest = None,
      dest_options = [\<lparr>must_understand = True, packed_header_marker = 0x5F\<rparr>],
      payload_result_bvlc_function = BVLC_SC_ADDRESS_RESOLUTION,
      payload_utf8_websocket_uri_string = []\<rparr>"

definition npdu_must_understand_example :: BVLC_SC_DECODED_MESSAGE where
  "npdu_must_understand_example =
     \<lparr>bvlc_function = BVLC_SC_ENCAPSULATED_NPDU, message_id = 9,
      origin = Some peer_vmac, dest = None,
      dest_options = [\<lparr>must_understand = True, packed_header_marker = 0x5F\<rparr>],
      payload_result_bvlc_function = BVLC_SC_RESULT,
      payload_utf8_websocket_uri_string = []\<rparr>"

text \<open>
  A node that has recorded an entry for the peer (it received a NAK for an address
  resolution, without options), while STARTING and while STARTED.
\<close>

definition node_record_peer :: "node_world \<Rightarrow> node_world" where
  "node_record_peer w =
     (case bsc_node_process_received node_env_ok None 0
             (nak_must_understand_example\<lparr>dest_options := []\<rparr>) w of
        Some w' \<Rightarrow> w'
      | None \<Rightarrow> w)"

definition node_world_starting_recorded :: node_world where
  "node_world_starting_recorded = node_record_peer node_world_starting"

definition node_world_started_recorded :: node_world where
  "node_world_started_recorded = node_record_peer node_world_started"




text \<open>
  The three sub-components and the reports of each that take part in a restart: the
  duplicate VMAC, STOPPED, and the report a sub-component makes once it is up, which is
  STARTED for the hub function and the node switch and CONNECTED-PRIMARY for the hub
  connector (its event type has no STARTED).
\<close>

datatype sub_component = SUB_HUB_CONNECTOR | SUB_HUB_FUNCTION | SUB_NODE_SWITCH




text \<open>
  What a STOPPED report of a sub-component does to the node before the aggregate test:
  the handle of that sub-component becomes null.
\<close>

fun clear_handle :: "sub_component \<Rightarrow> BSC_Node \<Rightarrow> BSC_Node" where
  "clear_handle SUB_HUB_CONNECTOR nd = nd\<lparr>hub_connector := None\<rparr>"
| "clear_handle SUB_HUB_FUNCTION nd = nd\<lparr>hub_function := None\<rparr>"
| "clear_handle SUB_NODE_SWITCH nd = nd\<lparr>node_switch := None\<rparr>"







definition restarted_count :: "node_world \<Rightarrow> nat" where
  "restarted_count w =
     length (filter (\<lambda>c. c = Call_node_event_func BSC_NODE_EVENT_RESTARTED None 0) (out w))"









section \<open>Properties of the hub connector\<close>

lemmas hc_defs = bsc_hub_connector_stop_def hub_connector_connect_or_stop_def
  hub_connector_process_state_def hub_connector_socket_event_def hub_connector_context_event_def
  hc_call_def hc_set_state_def hc_state_def bsc_global_mutex_lock_def bsc_global_mutex_unlock_def

subsection \<open>Transitions on disconnects and on the reconnect tick\<close>

lemma disconnect_connecting_primary:
  assumes "hc_state w = BSC_HUB_CONNECTOR_STATE_CONNECTING_PRIMARY"
    and "e \<noteq> BSC_SC_DUPLICATED_VMAC"
    and "bsc_connect env BSC_HUB_CONN_FAILOVER (failover_url (bsc_hub_connector w)) = BSC_SC_SUCCESS"
  shows "hub_connector_socket_event env c BSC_SOCKET_EVENT_DISCONNECTED e pdu n w =
           w\<lparr>bsc_hub_connector := (bsc_hub_connector w)
                \<lparr>BSC_HUB_CONNECTOR.state := BSC_HUB_CONNECTOR_STATE_CONNECTING_FAILOVER\<rparr>,
             calls := calls w @
                [Call_bsc_connect BSC_HUB_CONN_FAILOVER (failover_url (bsc_hub_connector w))]\<rparr>"
  using assms by (simp add: hc_defs Let_def)

lemma disconnect_connecting_failover:
  assumes "hc_state w = BSC_HUB_CONNECTOR_STATE_CONNECTING_FAILOVER"
    and "e \<noteq> BSC_SC_DUPLICATED_VMAC"
  shows "hub_connector_socket_event env c BSC_SOCKET_EVENT_DISCONNECTED e pdu n w =
           w\<lparr>bsc_hub_connector := (bsc_hub_connector w)
                \<lparr>BSC_HUB_CONNECTOR.state := BSC_HUB_CONNECTOR_STATE_WAIT_FOR_RECONNECT,
                 t := mstimer_set env (t (bsc_hub_connector w))
                        (hc_reconnect_timeout_s (bsc_hub_connector w) * 1000)\<rparr>\<rparr>"
  using assms by (simp add: hc_defs Let_def)

lemma tick_wait_for_reconnect:
  assumes "hc_state w = BSC_HUB_CONNECTOR_STATE_WAIT_FOR_RECONNECT"
    and "mstimer_expired env (t (bsc_hub_connector w))"
    and "bsc_connect env BSC_HUB_CONN_PRIMARY (primary_url (bsc_hub_connector w)) = BSC_SC_SUCCESS"
  shows "hub_connector_process_state env w =
           w\<lparr>bsc_hub_connector := (bsc_hub_connector w)
                \<lparr>BSC_HUB_CONNECTOR.state := BSC_HUB_CONNECTOR_STATE_CONNECTING_PRIMARY\<rparr>,
             calls := calls w @
                [Call_bsc_connect BSC_HUB_CONN_PRIMARY (primary_url (bsc_hub_connector w))]\<rparr>"
  using assms by (simp add: hc_defs Let_def)

lemma disconnect_connected:
  assumes "hc_state w = BSC_HUB_CONNECTOR_STATE_CONNECTED_PRIMARY \<or>
           hc_state w = BSC_HUB_CONNECTOR_STATE_CONNECTED_FAILOVER"
    and "e \<noteq> BSC_SC_DUPLICATED_VMAC"
    and "bsc_connect env BSC_HUB_CONN_PRIMARY (primary_url (bsc_hub_connector w)) = BSC_SC_SUCCESS"
  shows "hub_connector_socket_event env c BSC_SOCKET_EVENT_DISCONNECTED e pdu n w =
           w\<lparr>bsc_hub_connector := (bsc_hub_connector w)
                \<lparr>BSC_HUB_CONNECTOR.state := BSC_HUB_CONNECTOR_STATE_CONNECTING_PRIMARY\<rparr>,
             calls := calls w @
                [Call_event_func BSC_HUBC_EVENT_DISCONNECTED e None 0,
                 Call_bsc_connect BSC_HUB_CONN_PRIMARY (primary_url (bsc_hub_connector w))]\<rparr>"
  using assms by (auto simp add: hc_defs Let_def)

lemma unreachable_round_step:
  assumes "hc_state w = BSC_HUB_CONNECTOR_STATE_CONNECTING_PRIMARY"
    and "e1 \<noteq> BSC_SC_DUPLICATED_VMAC" and "e2 \<noteq> BSC_SC_DUPLICATED_VMAC"
    and "\<forall>ty url. bsc_connect env ty url = BSC_SC_SUCCESS"
    and "\<forall>tm. mstimer_expired env tm"
  shows "unreachable_round env e1 e2 w =
           w\<lparr>bsc_hub_connector := (bsc_hub_connector w)
                \<lparr>t := mstimer_set env (t (bsc_hub_connector w))
                        (hc_reconnect_timeout_s (bsc_hub_connector w) * 1000)\<rparr>,
             calls := calls w @
                [Call_bsc_connect BSC_HUB_CONN_FAILOVER (failover_url (bsc_hub_connector w)),
                 Call_bsc_connect BSC_HUB_CONN_PRIMARY (primary_url (bsc_hub_connector w))]\<rparr>"
  using assms by (simp add: unreachable_round_def hc_defs Let_def)

lemma concat_replicate_snoc: "concat (replicate k xs) @ xs = concat (replicate (Suc k) xs)"
  by (induction k) simp_all

lemma unreachable_rounds:
  assumes "hc_state w = BSC_HUB_CONNECTOR_STATE_CONNECTING_PRIMARY"
    and "e1 \<noteq> BSC_SC_DUPLICATED_VMAC" and "e2 \<noteq> BSC_SC_DUPLICATED_VMAC"
    and "\<forall>ty url. bsc_connect env ty url = BSC_SC_SUCCESS"
    and "\<forall>tm. mstimer_expired env tm"
  shows "hc_state ((unreachable_round env e1 e2 ^^ k) w) = BSC_HUB_CONNECTOR_STATE_CONNECTING_PRIMARY \<and>
         primary_url (bsc_hub_connector ((unreachable_round env e1 e2 ^^ k) w)) =
           primary_url (bsc_hub_connector w) \<and>
         failover_url (bsc_hub_connector ((unreachable_round env e1 e2 ^^ k) w)) =
           failover_url (bsc_hub_connector w) \<and>
         calls ((unreachable_round env e1 e2 ^^ k) w) =
           calls w @ concat (replicate k
             [Call_bsc_connect BSC_HUB_CONN_FAILOVER (failover_url (bsc_hub_connector w)),
              Call_bsc_connect BSC_HUB_CONN_PRIMARY (primary_url (bsc_hub_connector w))])"
proof (induction k)
  case 0
  show ?case using assms(1) by simp
next
  case (Suc k)
  let ?v = "(unreachable_round env e1 e2 ^^ k) w"
  have st: "hc_state ?v = BSC_HUB_CONNECTOR_STATE_CONNECTING_PRIMARY" using Suc.IH by simp
  have step: "(unreachable_round env e1 e2 ^^ Suc k) w = unreachable_round env e1 e2 ?v" by simp
  show ?case
    unfolding step unreachable_round_step [OF st assms(2) assms(3) assms(4) assms(5)]
    using Suc.IH by (simp add: hc_state_def concat_replicate_snoc del: replicate_Suc concat.simps)
qed

text \<open>
  Claim C2, as amended. In CONNECTING-PRIMARY a socket DISCONNECTED with a cause other than
  DUPLICATED_VMAC moves to CONNECTING-FAILOVER and calls \<^verbatim>\<open>bsc_connect\<close> on the failover
  URL; in CONNECTING-FAILOVER it moves to WAIT-FOR-RECONNECT and arms the timer with
  \<^verbatim>\<open>reconnect_timeout_s * 1000\<close>; in WAIT-FOR-RECONNECT a tick with the timer expired
  moves to CONNECTING-PRIMARY and calls \<^verbatim>\<open>bsc_connect\<close> on the primary URL; in
  CONNECTED-PRIMARY or CONNECTED-FAILOVER it emits DISCONNECTED with the cause and calls
  \<^verbatim>\<open>bsc_connect\<close> on the primary URL. Each move to a CONNECTING state is the final state
  when the transport accepts the connect request. With a transport that accepts every
  connect request and both hubs then disconnecting, every round ends in CONNECTING-PRIMARY
  again, after one connect to the failover hub and one to the primary hub: the cycle runs
  for every number of rounds.
\<close>

theorem hub_connector_failover_cycle:
  assumes "e \<noteq> BSC_SC_DUPLICATED_VMAC"
  shows
    "(hc_state w = BSC_HUB_CONNECTOR_STATE_CONNECTING_PRIMARY \<and>
      bsc_connect env BSC_HUB_CONN_FAILOVER (failover_url (bsc_hub_connector w)) = BSC_SC_SUCCESS \<longrightarrow>
        hub_connector_socket_event env c BSC_SOCKET_EVENT_DISCONNECTED e pdu n w =
          w\<lparr>bsc_hub_connector := (bsc_hub_connector w)
               \<lparr>BSC_HUB_CONNECTOR.state := BSC_HUB_CONNECTOR_STATE_CONNECTING_FAILOVER\<rparr>,
            calls := calls w @
               [Call_bsc_connect BSC_HUB_CONN_FAILOVER (failover_url (bsc_hub_connector w))]\<rparr>) \<and>
     (hc_state w = BSC_HUB_CONNECTOR_STATE_CONNECTING_FAILOVER \<longrightarrow>
        hub_connector_socket_event env c BSC_SOCKET_EVENT_DISCONNECTED e pdu n w =
          w\<lparr>bsc_hub_connector := (bsc_hub_connector w)
               \<lparr>BSC_HUB_CONNECTOR.state := BSC_HUB_CONNECTOR_STATE_WAIT_FOR_RECONNECT,
                t := mstimer_set env (t (bsc_hub_connector w))
                       (hc_reconnect_timeout_s (bsc_hub_connector w) * 1000)\<rparr>\<rparr>) \<and>
     (hc_state w = BSC_HUB_CONNECTOR_STATE_WAIT_FOR_RECONNECT \<and>
      mstimer_expired env (t (bsc_hub_connector w)) \<and>
      bsc_connect env BSC_HUB_CONN_PRIMARY (primary_url (bsc_hub_connector w)) = BSC_SC_SUCCESS \<longrightarrow>
        hub_connector_process_state env w =
          w\<lparr>bsc_hub_connector := (bsc_hub_connector w)
               \<lparr>BSC_HUB_CONNECTOR.state := BSC_HUB_CONNECTOR_STATE_CONNECTING_PRIMARY\<rparr>,
            calls := calls w @
               [Call_bsc_connect BSC_HUB_CONN_PRIMARY (primary_url (bsc_hub_connector w))]\<rparr>) \<and>
     ((hc_state w = BSC_HUB_CONNECTOR_STATE_CONNECTED_PRIMARY \<or>
       hc_state w = BSC_HUB_CONNECTOR_STATE_CONNECTED_FAILOVER) \<and>
      bsc_connect env BSC_HUB_CONN_PRIMARY (primary_url (bsc_hub_connector w)) = BSC_SC_SUCCESS \<longrightarrow>
        hub_connector_socket_event env c BSC_SOCKET_EVENT_DISCONNECTED e pdu n w =
          w\<lparr>bsc_hub_connector := (bsc_hub_connector w)
               \<lparr>BSC_HUB_CONNECTOR.state := BSC_HUB_CONNECTOR_STATE_CONNECTING_PRIMARY\<rparr>,
            calls := calls w @
               [Call_event_func BSC_HUBC_EVENT_DISCONNECTED e None 0,
                Call_bsc_connect BSC_HUB_CONN_PRIMARY (primary_url (bsc_hub_connector w))]\<rparr>) \<and>
     (hc_state w = BSC_HUB_CONNECTOR_STATE_CONNECTING_PRIMARY \<and>
      e2 \<noteq> BSC_SC_DUPLICATED_VMAC \<and>
      (\<forall>ty url. bsc_connect env ty url = BSC_SC_SUCCESS) \<and> (\<forall>tm. mstimer_expired env tm) \<longrightarrow>
        (\<forall>k. hc_state ((unreachable_round env e e2 ^^ k) w) =
                BSC_HUB_CONNECTOR_STATE_CONNECTING_PRIMARY \<and>
              calls ((unreachable_round env e e2 ^^ k) w) =
                calls w @ concat (replicate k
                  [Call_bsc_connect BSC_HUB_CONN_FAILOVER (failover_url (bsc_hub_connector w)),
                   Call_bsc_connect BSC_HUB_CONN_PRIMARY (primary_url (bsc_hub_connector w))])))"
  using assms disconnect_connecting_primary [of w e env c pdu n]
    disconnect_connecting_failover [of w e env c pdu n]
    tick_wait_for_reconnect [of w env]
    disconnect_connected [of w e env c pdu n]
    unreachable_rounds [of w e e2 env]
  by blast

lemma hc_world_connecting_eval:
  "hc_world_connecting =
     hc_world_idle\<lparr>bsc_hub_connector := (bsc_hub_connector hc_world_idle)
          \<lparr>cfg := Some \<lparr>cfg_type = BSC_SOCKET_CTX_INITIATOR, cfg_proto = BSC_WEBSOCKET_HUB_PROTOCOL,
                       cfg_port = 0, cfg_args = hc_args_example\<rparr>,
           BSC_HUB_CONNECTOR.state := BSC_HUB_CONNECTOR_STATE_CONNECTING_PRIMARY,
           hc_reconnect_timeout_s := 5,
           primary_url := ''wss://p:9999'', failover_url := ''wss://f:9999'',
           hc_event_func := Some 1\<rparr>,
       bsc_hub_connector_started := True,
       calls := [Call_bsc_runloop_reg,
          Call_bsc_init_ctx (Some \<lparr>cfg_type = BSC_SOCKET_CTX_INITIATOR,
             cfg_proto = BSC_WEBSOCKET_HUB_PROTOCOL, cfg_port = 0, cfg_args = hc_args_example\<rparr>) 2,
          Call_bsc_connect BSC_HUB_CONN_PRIMARY ''wss://p:9999'']\<rparr>"
  by (simp add: hc_world_connecting_def bsc_hub_connector_start_def hc_env_accept_def
        hc_args_example_def hc_world_idle_def hc_defs Let_def)

lemma st_connecting: "hc_state hc_world_connecting = BSC_HUB_CONNECTOR_STATE_CONNECTING_PRIMARY"
  by (simp add: hc_world_connecting_eval hc_state_def)

lemma st_failover: "hc_state hc_world_failover = BSC_HUB_CONNECTOR_STATE_CONNECTING_FAILOVER"
  by (simp add: hc_world_failover_def hc_world_connecting_eval hc_env_accept_def hc_defs Let_def)

lemma st_wait: "hc_state hc_world_wait = BSC_HUB_CONNECTOR_STATE_WAIT_FOR_RECONNECT"
  using st_failover
  by (simp add: hc_world_wait_def hc_env_accept_def hc_defs Let_def)

lemma st_connected: "hc_state hc_world_connected = BSC_HUB_CONNECTOR_STATE_CONNECTED_PRIMARY"
  using st_connecting
  by (simp add: hc_world_connected_def hc_env_accept_def hc_defs Let_def)

lemma accept_all: "bsc_connect hc_env_accept ty url = BSC_SC_SUCCESS" "mstimer_expired hc_env_accept tm"
  by (simp_all add: hc_env_accept_def)

text \<open>
  Claim C2, witness: the four transitions at the worlds reached from a started connector,
  and three rounds of the cycle.
\<close>

theorem hub_connector_failover_cycle_witness:
  "hc_state (hub_connector_socket_event hc_env_accept BSC_HUB_CONN_PRIMARY
       BSC_SOCKET_EVENT_DISCONNECTED (BSC_SC_OTHER 1) None 0 hc_world_connecting) =
     BSC_HUB_CONNECTOR_STATE_CONNECTING_FAILOVER \<and>
   hc_state (hub_connector_socket_event hc_env_accept BSC_HUB_CONN_FAILOVER
       BSC_SOCKET_EVENT_DISCONNECTED (BSC_SC_OTHER 1) None 0 hc_world_failover) =
     BSC_HUB_CONNECTOR_STATE_WAIT_FOR_RECONNECT \<and>
   hc_state (hub_connector_process_state hc_env_accept hc_world_wait) =
     BSC_HUB_CONNECTOR_STATE_CONNECTING_PRIMARY \<and>
   hc_state (hub_connector_socket_event hc_env_accept BSC_HUB_CONN_PRIMARY
       BSC_SOCKET_EVENT_DISCONNECTED (BSC_SC_OTHER 1) None 0 hc_world_connected) =
     BSC_HUB_CONNECTOR_STATE_CONNECTING_PRIMARY \<and>
   hc_state ((unreachable_round hc_env_accept (BSC_SC_OTHER 1) (BSC_SC_OTHER 2) ^^ 3)
       hc_world_connecting) = BSC_HUB_CONNECTOR_STATE_CONNECTING_PRIMARY"
proof -
  have ne: "BSC_SC_OTHER 1 \<noteq> BSC_SC_DUPLICATED_VMAC" "BSC_SC_OTHER 2 \<noteq> BSC_SC_DUPLICATED_VMAC"
    by simp_all
  note T = hub_connector_failover_cycle [OF ne(1), where env = hc_env_accept and pdu = None
      and n = 0 and ?e2.0 = "BSC_SC_OTHER 2"]
  show ?thesis
    using T [of hc_world_connecting BSC_HUB_CONN_PRIMARY]
      T [of hc_world_failover BSC_HUB_CONN_FAILOVER]
      T [of hc_world_wait BSC_HUB_CONN_PRIMARY]
      T [of hc_world_connected BSC_HUB_CONN_PRIMARY]
      st_connecting st_failover st_wait st_connected ne(2)
    by (simp add: accept_all hc_state_def)
qed

text \<open>
  Claim C2 as stated fails at two inputs. In CONNECTED-PRIMARY a disconnect with cause
  DUPLICATED_VMAC emits DISCONNECTED and then requests stop: no connect to the primary hub
  is begun and the state is WAIT-FOR-CTX-DEINIT. In CONNECTING-PRIMARY a disconnect with
  another cause, when the transport refuses the connect to the failover hub, ends in
  WAIT-FOR-CTX-DEINIT and not in CONNECTING-FAILOVER.
\<close>

theorem hub_connector_failover_counterexample:
  "hc_state (hub_connector_socket_event hc_env_accept BSC_HUB_CONN_PRIMARY
       BSC_SOCKET_EVENT_DISCONNECTED BSC_SC_DUPLICATED_VMAC None 0 hc_world_connected) =
     BSC_HUB_CONNECTOR_STATE_WAIT_FOR_CTX_DEINIT \<and>
   calls (hub_connector_socket_event hc_env_accept BSC_HUB_CONN_PRIMARY
       BSC_SOCKET_EVENT_DISCONNECTED BSC_SC_DUPLICATED_VMAC None 0 hc_world_connected) =
     calls hc_world_connected @
       [Call_event_func BSC_HUBC_EVENT_DISCONNECTED BSC_SC_DUPLICATED_VMAC None 0,
        Call_bsc_runloop_unreg, Call_bsc_deinit_ctx] \<and>
   hc_state hc_world_connected = BSC_HUB_CONNECTOR_STATE_CONNECTED_PRIMARY \<and>
   hc_state (hub_connector_socket_event hc_env_refuse BSC_HUB_CONN_PRIMARY
       BSC_SOCKET_EVENT_DISCONNECTED (BSC_SC_OTHER 1) None 0 hc_world_connecting) =
     BSC_HUB_CONNECTOR_STATE_WAIT_FOR_CTX_DEINIT \<and>
   hc_state hc_world_connecting = BSC_HUB_CONNECTOR_STATE_CONNECTING_PRIMARY"
  by (simp add: hc_world_connected_def hc_world_connecting_eval hc_env_accept_def hc_env_refuse_def
        hc_world_idle_def hc_defs Let_def)


subsection \<open>Context deinit, stop, send\<close>

text \<open>
  Claim C8. When the socket context reports DEINITIALIZED while the connector is started,
  the connector becomes IDLE and not started, and calls the owner exactly once, with
  STOPPED: the cause is the latched error if the state was ERROR, and success otherwise.
\<close>

theorem context_deinit_emits_stopped:
  assumes "bsc_hub_connector_started w"
  shows "hub_connector_context_event BSC_CTX_DEINITIALIZED w =
           w\<lparr>bsc_hub_connector := (bsc_hub_connector w)
                \<lparr>BSC_HUB_CONNECTOR.state := BSC_HUB_CONNECTOR_STATE_IDLE\<rparr>,
             bsc_hub_connector_started := False,
             calls := calls w @
               [Call_event_func BSC_HUBC_EVENT_STOPPED
                  (if hc_state w = BSC_HUB_CONNECTOR_STATE_ERROR
                   then error (bsc_hub_connector w) else BSC_SC_SUCCESS) None 0]\<rparr>"
  using assms by (auto simp: hc_defs Let_def)

theorem context_deinit_emits_stopped_witness:
  "bsc_hub_connector_started hc_world_connecting \<and>
   calls (hub_connector_context_event BSC_CTX_DEINITIALIZED hc_world_connecting) =
     calls hc_world_connecting @ [Call_event_func BSC_HUBC_EVENT_STOPPED BSC_SC_SUCCESS None 0] \<and>
   calls (hub_connector_context_event BSC_CTX_DEINITIALIZED
            (hc_world_connecting\<lparr>bsc_hub_connector := (bsc_hub_connector hc_world_connecting)
               \<lparr>BSC_HUB_CONNECTOR.state := BSC_HUB_CONNECTOR_STATE_ERROR,
                error := BSC_SC_NO_RESOURCES\<rparr>\<rparr>)) =
     calls hc_world_connecting @ [Call_event_func BSC_HUBC_EVENT_STOPPED BSC_SC_NO_RESOURCES None 0] \<and>
   hc_state (hub_connector_context_event BSC_CTX_DEINITIALIZED hc_world_connecting) =
     BSC_HUB_CONNECTOR_STATE_IDLE"
proof -
  have s1: "bsc_hub_connector_started hc_world_connecting"
    by (simp add: hc_world_connecting_eval)
  have s2: "bsc_hub_connector_started
              (hc_world_connecting\<lparr>bsc_hub_connector := (bsc_hub_connector hc_world_connecting)
                 \<lparr>BSC_HUB_CONNECTOR.state := BSC_HUB_CONNECTOR_STATE_ERROR,
                  error := BSC_SC_NO_RESOURCES\<rparr>\<rparr>)"
    by (simp add: hc_world_connecting_eval)
  show ?thesis
    using s1 context_deinit_emits_stopped [OF s1] context_deinit_emits_stopped [OF s2] st_connecting
    by (simp add: hc_state_def)
qed

text \<open>
  A stop request on a started connector leaves the state WAIT-FOR-CTX-DEINIT, also when
  the state was ERROR: the ERROR case of the deinit arises only when the context reports
  DEINITIALIZED with no stop request after the error was latched.
\<close>

lemma stop_replaces_error_state:
  "bsc_hub_connector_started w \<Longrightarrow>
   hc_state (bsc_hub_connector_stop w) = BSC_HUB_CONNECTOR_STATE_WAIT_FOR_CTX_DEINIT"
  by (auto simp: hc_defs Let_def)

text \<open>
  Claim C10. \<^verbatim>\<open>bsc_hub_connector_stop\<close> on a connector that is not started, or that is
  in WAIT-FOR-CTX-DEINIT, returns the world it was given: state, timer, latched error,
  started flag, mutex count and the list of calls (so no unregistration and no deinit is
  requested). A second stop changes nothing after a first one.
\<close>

theorem bsc_hub_connector_stop_idempotent:
  "((\<not> bsc_hub_connector_started w \<or>
     hc_state w = BSC_HUB_CONNECTOR_STATE_WAIT_FOR_CTX_DEINIT) \<longrightarrow>
      bsc_hub_connector_stop w = w) \<and>
   bsc_hub_connector_stop (bsc_hub_connector_stop w) = bsc_hub_connector_stop w"
  by (auto simp: hc_defs Let_def)

theorem bsc_hub_connector_stop_idempotent_witness:
  "\<not> bsc_hub_connector_started hc_world_idle \<and>
   bsc_hub_connector_stop hc_world_idle = hc_world_idle \<and>
   hc_state (bsc_hub_connector_stop hc_world_connecting) =
     BSC_HUB_CONNECTOR_STATE_WAIT_FOR_CTX_DEINIT \<and>
   bsc_hub_connector_stop (bsc_hub_connector_stop hc_world_connecting) =
     bsc_hub_connector_stop hc_world_connecting"
proof -
  have a: "\<not> bsc_hub_connector_started hc_world_idle"
    by (simp add: hc_world_idle_def)
  have b: "hc_state (bsc_hub_connector_stop hc_world_connecting) =
             BSC_HUB_CONNECTOR_STATE_WAIT_FOR_CTX_DEINIT"
    by (simp add: hc_world_connecting_eval hc_defs Let_def)
  show ?thesis
    using a b bsc_hub_connector_stop_idempotent [of hc_world_idle]
      bsc_hub_connector_stop_idempotent [of "bsc_hub_connector_stop hc_world_connecting"]
    by simp
qed

text \<open>
  Claim C6 fails on the code. \<^verbatim>\<open>bsc_hub_connector_send\<close> on a connector that is not
  started returns INVALID_OPERATION with the mutex held once more than at entry: the
  source returns on that path without unlocking. The other paths of the function, and
  every path of \<^verbatim>\<open>bsc_node_send\<close>, leave the count as it was.
\<close>

theorem bsc_hub_connector_send_keeps_mutex:
  "bsc_hub_connector_send hc_env_accept (Some [1, 0]) 2 hc_world_idle =
     (BSC_SC_INVALID_OPERATION, hc_world_idle\<lparr>mutex := 1\<rparr>) \<and>
   mutex hc_world_idle = 0"
  by (simp add: bsc_hub_connector_send_def hc_env_accept_def hc_world_idle_def hc_defs Let_def)

theorem bsc_hub_connector_send_keeps_mutex_witness:
  "fst (bsc_hub_connector_send hc_env_accept (Some [1, 0]) 2 hc_world_idle) =
     BSC_SC_INVALID_OPERATION \<and>
   mutex (snd (bsc_hub_connector_send hc_env_accept (Some [1, 0]) 2 hc_world_idle)) =
     Suc (mutex hc_world_idle)"
  using bsc_hub_connector_send_keeps_mutex by simp

lemma bsc_hub_connector_send_invalid_operation:
  "\<not> bsc_hub_connector_started w \<or>
   (hc_state w \<noteq> BSC_HUB_CONNECTOR_STATE_CONNECTED_PRIMARY \<and>
    hc_state w \<noteq> BSC_HUB_CONNECTOR_STATE_CONNECTED_FAILOVER) \<Longrightarrow>
   bsc_hub_connector_send env pdu n w = (BSC_SC_INVALID_OPERATION, w\<lparr>mutex := Suc (mutex w)\<rparr>)"
  by (auto simp add: bsc_hub_connector_send_def hc_defs Let_def)

lemma bsc_hub_connector_send_connected:
  "bsc_hub_connector_started w \<Longrightarrow>
   hc_state w = BSC_HUB_CONNECTOR_STATE_CONNECTED_PRIMARY \<or>
   hc_state w = BSC_HUB_CONNECTOR_STATE_CONNECTED_FAILOVER \<Longrightarrow>
   mutex (snd (bsc_hub_connector_send env pdu n w)) = mutex w"
  by (auto simp add: bsc_hub_connector_send_def hc_defs Let_def)

lemma bsc_node_send_mutex_balanced:
  "mutex (snd (bsc_node_send env p_node pdu n w)) = mutex w"
  by (simp add: bsc_node_send_def node_call_def node_state_def bsc_global_mutex_lock_def
        bsc_global_mutex_unlock_def Let_def)

subsection \<open>Start\<close>

lemma start_bad_param:
  assumes "ca_cert_chain a = None \<or> ca_cert_chain_size a = 0 \<or> cert_chain a = None \<or>
       cert_chain_size a = 0 \<or> key a = None \<or> key_size a = 0 \<or> local_uuid a = None \<or>
       hub_connector_start_args.local_vmac a = None \<or>
       hub_connector_start_args.max_local_npdu_len a = 0 \<or>
       hub_connector_start_args.max_local_bvlc_len a = 0 \<or>
       connect_timeout_s a = 0 \<or> heartbeat_timeout_s a = 0 \<or> disconnect_timeout_s a = 0 \<or>
       reconnect_timeout_s a = 0 \<or> primaryURL a = None \<or> failoverURL a = None \<or>
       event_func a = None \<or>
       (\<exists>u. primaryURL a = Some u \<and> length u > BSC_WSURL_MAX_LEN env) \<or>
       (\<exists>u. failoverURL a = Some u \<and> length u > BSC_WSURL_MAX_LEN env)"
  shows "bsc_hub_connector_start env a w = (BSC_SC_BAD_PARAM, w)"
proof (cases "primaryURL a")
  case None
  then show ?thesis by (simp add: bsc_hub_connector_start_def)
next
  case pu: (Some pu)
  show ?thesis
  proof (cases "failoverURL a")
    case None
    then show ?thesis using pu by (simp add: bsc_hub_connector_start_def)
  next
    case fu: (Some fu)
    show ?thesis using assms pu fu
      by (simp add: bsc_hub_connector_start_def del: not_None_eq) (elim disjE; simp)
  qed
qed

lemma start_invalid_operation:
  assumes "hub_connector_args_valid env a pu fu" and "bsc_hub_connector_started w"
  shows "bsc_hub_connector_start env a w = (BSC_SC_INVALID_OPERATION, w)"
  using assms
  by (simp add: hub_connector_args_valid_def bsc_hub_connector_start_def hc_defs Let_def)

lemma start_ok:
  assumes "hub_connector_args_valid env a pu fu" and "\<not> bsc_hub_connector_started w"
    and "bsc_runloop_reg env = BSC_SC_SUCCESS" and "bsc_init_ctx env = BSC_SC_SUCCESS"
    and "bsc_connect env BSC_HUB_CONN_PRIMARY pu = BSC_SC_SUCCESS"
  shows "bsc_hub_connector_start env a w =
     (BSC_SC_SUCCESS,
      w\<lparr>bsc_hub_connector := (bsc_hub_connector w)
           \<lparr>cfg := Some \<lparr>cfg_type = BSC_SOCKET_CTX_INITIATOR, cfg_proto = BSC_WEBSOCKET_HUB_PROTOCOL,
                        cfg_port = 0, cfg_args = a\<rparr>,
            BSC_HUB_CONNECTOR.state := BSC_HUB_CONNECTOR_STATE_CONNECTING_PRIMARY,
            hc_reconnect_timeout_s := reconnect_timeout_s a,
            primary_url := pu, failover_url := fu, hc_event_func := event_func a\<rparr>,
        bsc_hub_connector_started := True,
        calls := calls w @
          [Call_bsc_runloop_reg,
           Call_bsc_init_ctx (Some \<lparr>cfg_type = BSC_SOCKET_CTX_INITIATOR,
              cfg_proto = BSC_WEBSOCKET_HUB_PROTOCOL, cfg_port = 0, cfg_args = a\<rparr>) 2,
           Call_bsc_connect BSC_HUB_CONN_PRIMARY pu]\<rparr>)"
  using assms
  by (simp add: hub_connector_args_valid_def bsc_hub_connector_start_def hc_defs Let_def)

lemma start_connect_fails:
  assumes "hub_connector_args_valid env a pu fu" and "\<not> bsc_hub_connector_started w"
    and "bsc_runloop_reg env = BSC_SC_SUCCESS" and "bsc_init_ctx env = BSC_SC_SUCCESS"
    and "bsc_connect env BSC_HUB_CONN_PRIMARY pu \<noteq> BSC_SC_SUCCESS"
  shows "bsc_hub_connector_start env a w =
     (bsc_connect env BSC_HUB_CONN_PRIMARY pu,
      w\<lparr>bsc_hub_connector := (bsc_hub_connector w)
           \<lparr>cfg := Some \<lparr>cfg_type = BSC_SOCKET_CTX_INITIATOR, cfg_proto = BSC_WEBSOCKET_HUB_PROTOCOL,
                        cfg_port = 0, cfg_args = a\<rparr>,
            BSC_HUB_CONNECTOR.state := BSC_HUB_CONNECTOR_STATE_IDLE,
            hc_reconnect_timeout_s := reconnect_timeout_s a,
            primary_url := pu, failover_url := fu, hc_event_func := event_func a\<rparr>,
        calls := calls w @
          [Call_bsc_runloop_reg,
           Call_bsc_init_ctx (Some \<lparr>cfg_type = BSC_SOCKET_CTX_INITIATOR,
              cfg_proto = BSC_WEBSOCKET_HUB_PROTOCOL, cfg_port = 0, cfg_args = a\<rparr>) 2,
           Call_bsc_connect BSC_HUB_CONN_PRIMARY pu,
           Call_bsc_runloop_unreg, Call_bsc_deinit_ctx]\<rparr>)"
  using assms
  by (auto simp add: hub_connector_args_valid_def bsc_hub_connector_start_def hc_defs Let_def)

lemma start_runloop_reg_fails:
  assumes "hub_connector_args_valid env a pu fu" and "\<not> bsc_hub_connector_started w"
    and "bsc_runloop_reg env \<noteq> BSC_SC_SUCCESS"
  shows "bsc_hub_connector_start env a w =
     (bsc_runloop_reg env,
      w\<lparr>bsc_hub_connector := (bsc_hub_connector w)
           \<lparr>cfg := Some \<lparr>cfg_type = BSC_SOCKET_CTX_INITIATOR, cfg_proto = BSC_WEBSOCKET_HUB_PROTOCOL,
                        cfg_port = 0, cfg_args = a\<rparr>,
            hc_reconnect_timeout_s := reconnect_timeout_s a,
            primary_url := pu, failover_url := fu, hc_event_func := event_func a\<rparr>,
        calls := calls w @ [Call_bsc_runloop_reg]\<rparr>)"
  using assms
  by (auto simp add: hub_connector_args_valid_def bsc_hub_connector_start_def hc_defs Let_def)

lemma start_init_ctx_fails:
  assumes "hub_connector_args_valid env a pu fu" and "\<not> bsc_hub_connector_started w"
    and "bsc_runloop_reg env = BSC_SC_SUCCESS" and "bsc_init_ctx env \<noteq> BSC_SC_SUCCESS"
  shows "bsc_hub_connector_start env a w =
     (bsc_init_ctx env,
      w\<lparr>bsc_hub_connector := (bsc_hub_connector w)
           \<lparr>cfg := Some \<lparr>cfg_type = BSC_SOCKET_CTX_INITIATOR, cfg_proto = BSC_WEBSOCKET_HUB_PROTOCOL,
                        cfg_port = 0, cfg_args = a\<rparr>,
            BSC_HUB_CONNECTOR.state := BSC_HUB_CONNECTOR_STATE_CONNECTING_PRIMARY,
            hc_reconnect_timeout_s := reconnect_timeout_s a,
            primary_url := pu, failover_url := fu, hc_event_func := event_func a\<rparr>,
        calls := calls w @
          [Call_bsc_runloop_reg,
           Call_bsc_init_ctx (Some \<lparr>cfg_type = BSC_SOCKET_CTX_INITIATOR,
              cfg_proto = BSC_WEBSOCKET_HUB_PROTOCOL, cfg_port = 0, cfg_args = a\<rparr>) 2]\<rparr>)"
  using assms
  by (auto simp add: hub_connector_args_valid_def bsc_hub_connector_start_def hc_defs Let_def)

text \<open>
  Claim C9, as amended. \<^verbatim>\<open>bsc_hub_connector_start\<close> returns BAD_PARAM and the world
  it was given whenever a pointer argument is null, a size, length or timeout is zero, or
  a URL is longer than \<^verbatim>\<open>BSC_WSURL_MAX_LEN\<close>. With valid arguments it returns
  INVALID_OPERATION and the world it was given if the connector is started. Otherwise it
  copies the configuration and registers with the runloop. If the registration fails it
  returns that code and has done nothing more. If it succeeds, the context is initialised
  for two slots in the initiator role and the state becomes CONNECTING-PRIMARY; if the
  initialisation fails it returns that code with no connect, no unregistration and no
  deinit, the connector not started. If it succeeds, \<^verbatim>\<open>bsc_connect\<close> is called on
  the primary URL: if that succeeds the state is CONNECTING-PRIMARY and the connector is
  started, and if it fails the state is IDLE, the connector is not started, and it has
  unregistered and requested the deinit before returning the transport's code. An empty
  URL is not among the rejected arguments.
\<close>

theorem bsc_hub_connector_start_validation:
  "((ca_cert_chain a = None \<or> ca_cert_chain_size a = 0 \<or> cert_chain a = None \<or>
     cert_chain_size a = 0 \<or> key a = None \<or> key_size a = 0 \<or> local_uuid a = None \<or>
     hub_connector_start_args.local_vmac a = None \<or>
     hub_connector_start_args.max_local_npdu_len a = 0 \<or>
     hub_connector_start_args.max_local_bvlc_len a = 0 \<or>
     connect_timeout_s a = 0 \<or> heartbeat_timeout_s a = 0 \<or> disconnect_timeout_s a = 0 \<or>
     reconnect_timeout_s a = 0 \<or> primaryURL a = None \<or> failoverURL a = None \<or>
     event_func a = None \<or>
     (\<exists>u. primaryURL a = Some u \<and> length u > BSC_WSURL_MAX_LEN env) \<or>
     (\<exists>u. failoverURL a = Some u \<and> length u > BSC_WSURL_MAX_LEN env)) \<longrightarrow>
      bsc_hub_connector_start env a w = (BSC_SC_BAD_PARAM, w)) \<and>
   (hub_connector_args_valid env a pu fu \<and> bsc_hub_connector_started w \<longrightarrow>
      bsc_hub_connector_start env a w = (BSC_SC_INVALID_OPERATION, w)) \<and>
   (hub_connector_args_valid env a pu fu \<and> \<not> bsc_hub_connector_started w \<and>
    bsc_runloop_reg env = BSC_SC_SUCCESS \<and> bsc_init_ctx env = BSC_SC_SUCCESS \<and>
    bsc_connect env BSC_HUB_CONN_PRIMARY pu = BSC_SC_SUCCESS \<longrightarrow>
      bsc_hub_connector_start env a w =
        (BSC_SC_SUCCESS,
         w\<lparr>bsc_hub_connector := (bsc_hub_connector w)
              \<lparr>cfg := Some \<lparr>cfg_type = BSC_SOCKET_CTX_INITIATOR,
                           cfg_proto = BSC_WEBSOCKET_HUB_PROTOCOL, cfg_port = 0, cfg_args = a\<rparr>,
               BSC_HUB_CONNECTOR.state := BSC_HUB_CONNECTOR_STATE_CONNECTING_PRIMARY,
               hc_reconnect_timeout_s := reconnect_timeout_s a,
               primary_url := pu, failover_url := fu, hc_event_func := event_func a\<rparr>,
           bsc_hub_connector_started := True,
           calls := calls w @
             [Call_bsc_runloop_reg,
              Call_bsc_init_ctx (Some \<lparr>cfg_type = BSC_SOCKET_CTX_INITIATOR,
                 cfg_proto = BSC_WEBSOCKET_HUB_PROTOCOL, cfg_port = 0, cfg_args = a\<rparr>) 2,
              Call_bsc_connect BSC_HUB_CONN_PRIMARY pu]\<rparr>)) \<and>
   (hub_connector_args_valid env a pu fu \<and> \<not> bsc_hub_connector_started w \<and>
    bsc_runloop_reg env = BSC_SC_SUCCESS \<and> bsc_init_ctx env = BSC_SC_SUCCESS \<and>
    bsc_connect env BSC_HUB_CONN_PRIMARY pu \<noteq> BSC_SC_SUCCESS \<longrightarrow>
      bsc_hub_connector_start env a w =
        (bsc_connect env BSC_HUB_CONN_PRIMARY pu,
         w\<lparr>bsc_hub_connector := (bsc_hub_connector w)
              \<lparr>cfg := Some \<lparr>cfg_type = BSC_SOCKET_CTX_INITIATOR,
                           cfg_proto = BSC_WEBSOCKET_HUB_PROTOCOL, cfg_port = 0, cfg_args = a\<rparr>,
               BSC_HUB_CONNECTOR.state := BSC_HUB_CONNECTOR_STATE_IDLE,
               hc_reconnect_timeout_s := reconnect_timeout_s a,
               primary_url := pu, failover_url := fu, hc_event_func := event_func a\<rparr>,
           calls := calls w @
             [Call_bsc_runloop_reg,
              Call_bsc_init_ctx (Some \<lparr>cfg_type = BSC_SOCKET_CTX_INITIATOR,
                 cfg_proto = BSC_WEBSOCKET_HUB_PROTOCOL, cfg_port = 0, cfg_args = a\<rparr>) 2,
              Call_bsc_connect BSC_HUB_CONN_PRIMARY pu,
              Call_bsc_runloop_unreg, Call_bsc_deinit_ctx]\<rparr>)) \<and>
   (hub_connector_args_valid env a pu fu \<and> \<not> bsc_hub_connector_started w \<and>
    bsc_runloop_reg env \<noteq> BSC_SC_SUCCESS \<longrightarrow>
      bsc_hub_connector_start env a w =
        (bsc_runloop_reg env,
         w\<lparr>bsc_hub_connector := (bsc_hub_connector w)
              \<lparr>cfg := Some \<lparr>cfg_type = BSC_SOCKET_CTX_INITIATOR,
                           cfg_proto = BSC_WEBSOCKET_HUB_PROTOCOL, cfg_port = 0, cfg_args = a\<rparr>,
               hc_reconnect_timeout_s := reconnect_timeout_s a,
               primary_url := pu, failover_url := fu, hc_event_func := event_func a\<rparr>,
           calls := calls w @ [Call_bsc_runloop_reg]\<rparr>)) \<and>
   (hub_connector_args_valid env a pu fu \<and> \<not> bsc_hub_connector_started w \<and>
    bsc_runloop_reg env = BSC_SC_SUCCESS \<and> bsc_init_ctx env \<noteq> BSC_SC_SUCCESS \<longrightarrow>
      bsc_hub_connector_start env a w =
        (bsc_init_ctx env,
         w\<lparr>bsc_hub_connector := (bsc_hub_connector w)
              \<lparr>cfg := Some \<lparr>cfg_type = BSC_SOCKET_CTX_INITIATOR,
                           cfg_proto = BSC_WEBSOCKET_HUB_PROTOCOL, cfg_port = 0, cfg_args = a\<rparr>,
               BSC_HUB_CONNECTOR.state := BSC_HUB_CONNECTOR_STATE_CONNECTING_PRIMARY,
               hc_reconnect_timeout_s := reconnect_timeout_s a,
               primary_url := pu, failover_url := fu, hc_event_func := event_func a\<rparr>,
           calls := calls w @
             [Call_bsc_runloop_reg,
              Call_bsc_init_ctx (Some \<lparr>cfg_type = BSC_SOCKET_CTX_INITIATOR,
                 cfg_proto = BSC_WEBSOCKET_HUB_PROTOCOL, cfg_port = 0, cfg_args = a\<rparr>) 2]\<rparr>))"
  using start_bad_param [of a env w] start_invalid_operation [of env a pu fu w]
    start_ok [of env a pu fu w] start_connect_fails [of env a pu fu w]
    start_runloop_reg_fails [of env a pu fu w] start_init_ctx_fails [of env a pu fu w]
  by blast

lemma hc_args_example_valid:
  "hub_connector_args_valid hc_env_accept hc_args_example ''wss://p:9999'' ''wss://f:9999''"
  "hub_connector_args_valid hc_env_refuse hc_args_example ''wss://p:9999'' ''wss://f:9999''"
  "hub_connector_args_valid (hc_env_accept\<lparr>bsc_runloop_reg := BSC_SC_NO_RESOURCES\<rparr>)
     hc_args_example ''wss://p:9999'' ''wss://f:9999''"
  "hub_connector_args_valid (hc_env_accept\<lparr>bsc_init_ctx := BSC_SC_NO_RESOURCES\<rparr>)
     hc_args_example ''wss://p:9999'' ''wss://f:9999''"
  by (simp_all add: hub_connector_args_valid_def hc_args_example_def hc_env_accept_def
        hc_env_refuse_def)

theorem bsc_hub_connector_start_validation_witness:
  "bsc_hub_connector_start hc_env_accept (hc_args_example\<lparr>key := None\<rparr>) hc_world_idle =
     (BSC_SC_BAD_PARAM, hc_world_idle) \<and>
   bsc_hub_connector_start hc_env_accept hc_args_example hc_world_connecting =
     (BSC_SC_INVALID_OPERATION, hc_world_connecting) \<and>
   fst (bsc_hub_connector_start hc_env_accept hc_args_example hc_world_idle) = BSC_SC_SUCCESS \<and>
   hc_state (snd (bsc_hub_connector_start hc_env_accept hc_args_example hc_world_idle)) =
     BSC_HUB_CONNECTOR_STATE_CONNECTING_PRIMARY \<and>
   fst (bsc_hub_connector_start hc_env_refuse hc_args_example hc_world_idle) =
     BSC_SC_NO_RESOURCES \<and>
   hc_state (snd (bsc_hub_connector_start hc_env_refuse hc_args_example hc_world_idle)) =
     BSC_HUB_CONNECTOR_STATE_IDLE \<and>
   calls (snd (bsc_hub_connector_start hc_env_refuse hc_args_example hc_world_idle)) =
     [Call_bsc_runloop_reg,
      Call_bsc_init_ctx (Some \<lparr>cfg_type = BSC_SOCKET_CTX_INITIATOR,
         cfg_proto = BSC_WEBSOCKET_HUB_PROTOCOL, cfg_port = 0, cfg_args = hc_args_example\<rparr>) 2,
      Call_bsc_connect BSC_HUB_CONN_PRIMARY ''wss://p:9999'',
      Call_bsc_runloop_unreg, Call_bsc_deinit_ctx] \<and>
   fst (bsc_hub_connector_start (hc_env_accept\<lparr>bsc_runloop_reg := BSC_SC_NO_RESOURCES\<rparr>)
          hc_args_example hc_world_idle) = BSC_SC_NO_RESOURCES \<and>
   hc_state (snd (bsc_hub_connector_start (hc_env_accept\<lparr>bsc_runloop_reg := BSC_SC_NO_RESOURCES\<rparr>)
          hc_args_example hc_world_idle)) = BSC_HUB_CONNECTOR_STATE_IDLE \<and>
   \<not> bsc_hub_connector_started
       (snd (bsc_hub_connector_start (hc_env_accept\<lparr>bsc_runloop_reg := BSC_SC_NO_RESOURCES\<rparr>)
          hc_args_example hc_world_idle)) \<and>
   calls (snd (bsc_hub_connector_start (hc_env_accept\<lparr>bsc_runloop_reg := BSC_SC_NO_RESOURCES\<rparr>)
          hc_args_example hc_world_idle)) = [Call_bsc_runloop_reg] \<and>
   fst (bsc_hub_connector_start (hc_env_accept\<lparr>bsc_init_ctx := BSC_SC_NO_RESOURCES\<rparr>)
          hc_args_example hc_world_idle) = BSC_SC_NO_RESOURCES \<and>
   hc_state (snd (bsc_hub_connector_start (hc_env_accept\<lparr>bsc_init_ctx := BSC_SC_NO_RESOURCES\<rparr>)
          hc_args_example hc_world_idle)) = BSC_HUB_CONNECTOR_STATE_CONNECTING_PRIMARY \<and>
   \<not> bsc_hub_connector_started
       (snd (bsc_hub_connector_start (hc_env_accept\<lparr>bsc_init_ctx := BSC_SC_NO_RESOURCES\<rparr>)
          hc_args_example hc_world_idle)) \<and>
   calls (snd (bsc_hub_connector_start (hc_env_accept\<lparr>bsc_init_ctx := BSC_SC_NO_RESOURCES\<rparr>)
          hc_args_example hc_world_idle)) =
     [Call_bsc_runloop_reg,
      Call_bsc_init_ctx (Some \<lparr>cfg_type = BSC_SOCKET_CTX_INITIATOR,
         cfg_proto = BSC_WEBSOCKET_HUB_PROTOCOL, cfg_port = 0, cfg_args = hc_args_example\<rparr>) 2]"
proof -
  have k: "key (hc_args_example\<lparr>key := None\<rparr>) = None" by simp
  have st: "bsc_hub_connector_started hc_world_connecting" "\<not> bsc_hub_connector_started hc_world_idle"
    by (simp_all add: hc_world_connecting_eval hc_world_idle_def)
  have env: "bsc_runloop_reg hc_env_accept = BSC_SC_SUCCESS" "bsc_init_ctx hc_env_accept = BSC_SC_SUCCESS"
    "bsc_connect hc_env_accept BSC_HUB_CONN_PRIMARY ''wss://p:9999'' = BSC_SC_SUCCESS"
    "bsc_runloop_reg hc_env_refuse = BSC_SC_SUCCESS" "bsc_init_ctx hc_env_refuse = BSC_SC_SUCCESS"
    "bsc_connect hc_env_refuse BSC_HUB_CONN_PRIMARY ''wss://p:9999'' = BSC_SC_NO_RESOURCES"
    "bsc_runloop_reg (hc_env_accept\<lparr>bsc_init_ctx := BSC_SC_NO_RESOURCES\<rparr>) = BSC_SC_SUCCESS"
    by (simp_all add: hc_env_accept_def hc_env_refuse_def)
  show ?thesis
    using k st env hc_args_example_valid
      bsc_hub_connector_start_validation [of "hc_args_example\<lparr>key := None\<rparr>" hc_env_accept
        hc_world_idle "''wss://p:9999''" "''wss://f:9999''"]
      bsc_hub_connector_start_validation [of hc_args_example hc_env_accept
        hc_world_connecting "''wss://p:9999''" "''wss://f:9999''"]
      bsc_hub_connector_start_validation [of hc_args_example hc_env_accept
        hc_world_idle "''wss://p:9999''" "''wss://f:9999''"]
      bsc_hub_connector_start_validation [of hc_args_example hc_env_refuse
        hc_world_idle "''wss://p:9999''" "''wss://f:9999''"]
      bsc_hub_connector_start_validation [of hc_args_example
        "hc_env_accept\<lparr>bsc_runloop_reg := BSC_SC_NO_RESOURCES\<rparr>"
        hc_world_idle "''wss://p:9999''" "''wss://f:9999''"]
      bsc_hub_connector_start_validation [of hc_args_example
        "hc_env_accept\<lparr>bsc_init_ctx := BSC_SC_NO_RESOURCES\<rparr>"
        hc_world_idle "''wss://p:9999''" "''wss://f:9999''"]
    by (simp add: hc_state_def hc_world_idle_def)
qed

text \<open>
  Claim C9 as stated fails for an empty URL: with the primary URL the empty string (a
  pointer that is not null) and every other argument valid, the start succeeds and the
  connector enters CONNECTING-PRIMARY, connecting to the empty URL.
\<close>

theorem bsc_hub_connector_start_empty_url_counterexample:
  "primaryURL (hc_args_example\<lparr>primaryURL := Some []\<rparr>) = Some [] \<and>
   fst (bsc_hub_connector_start hc_env_accept (hc_args_example\<lparr>primaryURL := Some []\<rparr>)
          hc_world_idle) = BSC_SC_SUCCESS \<and>
   hc_state (snd (bsc_hub_connector_start hc_env_accept (hc_args_example\<lparr>primaryURL := Some []\<rparr>)
          hc_world_idle)) = BSC_HUB_CONNECTOR_STATE_CONNECTING_PRIMARY \<and>
   calls (snd (bsc_hub_connector_start hc_env_accept (hc_args_example\<lparr>primaryURL := Some []\<rparr>)
          hc_world_idle)) =
     [Call_bsc_runloop_reg,
      Call_bsc_init_ctx (Some \<lparr>cfg_type = BSC_SOCKET_CTX_INITIATOR,
         cfg_proto = BSC_WEBSOCKET_HUB_PROTOCOL, cfg_port = 0,
         cfg_args = hc_args_example\<lparr>primaryURL := Some []\<rparr>\<rparr>) 2,
      Call_bsc_connect BSC_HUB_CONN_PRIMARY []]"
  by (simp add: bsc_hub_connector_start_def hc_env_accept_def hc_args_example_def
        hc_world_idle_def hc_defs Let_def)

section \<open>Properties of the node\<close>

lemmas node_defs = node_call_def node_set_state_def node_state_def
  bsc_global_mutex_lock_def bsc_global_mutex_unlock_def

subsection \<open>The aggregate tests and the events that evaluate them\<close>

lemma node_stopped_iff: "node_stopped env nd = spec_all_stopped env nd"
  by (auto simp add: node_stopped_def spec_all_stopped_def Let_def)

lemma node_started_iff:
  "node_started env nd =
     ((hub_function nd = None \<or> \<not> hub_function_enabled (conf nd) \<or>
         ext_hub_function_started env (hub_function nd)) \<and>
      (node_switch nd = None \<or> \<not> node_switch_enabled (conf nd) \<or>
         ext_node_switch_started env (node_switch nd)))"
  by (auto simp add: node_started_def Let_def)

lemma start_state_node_switch_out:
  "\<exists>xs. out (snd (start_state_node_switch env ret w)) = out w @ xs \<and>
        (\<forall>ev p k. Call_node_event_func ev p k \<notin> set xs)"
  by (simp add: start_state_node_switch_def call_node_switch_start_def node_defs)

lemma start_state_hub_function_out:
  "\<exists>xs. out (snd (start_state_hub_function env ret w)) = out w @ xs \<and>
        (\<forall>ev p k. Call_node_event_func ev p k \<notin> set xs)"
proof (cases "hub_function_enabled (conf (node w)) \<and>
              fst (ext_hub_function_start env (conf (node w))) = BSC_SC_SUCCESS")
  case True
  obtain xs where xs: "out (snd (start_state_node_switch env BSC_SC_SUCCESS
                         (snd (call_hub_function_start env w)))) =
                       out (snd (call_hub_function_start env w)) @ xs"
      "\<forall>ev p k. Call_node_event_func ev p k \<notin> set xs"
    using start_state_node_switch_out by blast
  show ?thesis using True xs
    by (simp add: start_state_hub_function_def call_hub_function_start_def node_defs)
next
  case False
  show ?thesis
  proof (cases "hub_function_enabled (conf (node w))")
    case True
    then show ?thesis using False
      by (simp add: start_state_hub_function_def call_hub_function_start_def node_defs)
  next
    case False
    then show ?thesis using start_state_node_switch_out [of env ret w]
      by (simp add: start_state_hub_function_def)
  qed
qed

lemma start_state_out:
  "\<exists>xs. out (snd (bsc_node_start_state env st w)) = out w @ xs \<and>
        (\<forall>ev p k. Call_node_event_func ev p k \<notin> set xs)"
proof -
  define w3 where "w3 = (let w1 = bsc_global_mutex_lock w;
          w2 = w1\<lparr>node := (node w1)\<lparr>BSC_Node.state := st, hub_connector := None,
                                     hub_function := None, node_switch := None\<rparr>\<rparr>
      in (if node_state w2 \<noteq> BSC_NODE_STATE_RESTARTING
                then w2\<lparr>node := (node w2)
                         \<lparr>resolution := map memset_resolution (resolution (node w2))\<rparr>\<rparr>
                else w2\<lparr>node := (node w2)
                         \<lparr>conf := (conf (node w2))
                            \<lparr>BSC_NODE_CONF.local_vmac :=
                               ext_generate_random_vmac env
                                 (BSC_NODE_CONF.local_vmac (conf (node w2)))\<rparr>\<rparr>\<rparr>))"
  have o3: "out w3 = out w" by (simp add: w3_def node_defs Let_def)
  have eq: "bsc_node_start_state env st w =
     (case call_hub_connector_start env w3 of
           (ret, w4) \<Rightarrow>
             if ret \<noteq> BSC_SC_SUCCESS
             then (ret, bsc_global_mutex_unlock (node_set_state BSC_NODE_STATE_IDLE w4))
             else start_state_hub_function env ret w4)"
    by (simp add: bsc_node_start_state_def w3_def Let_def)
  obtain xs where xs: "out (snd (start_state_hub_function env BSC_SC_SUCCESS
                         (snd (call_hub_connector_start env w3)))) =
                       out (snd (call_hub_connector_start env w3)) @ xs"
      "\<forall>ev p k. Call_node_event_func ev p k \<notin> set xs"
    using start_state_hub_function_out by blast
  show ?thesis unfolding eq using xs o3
    by (simp add: call_hub_connector_start_def node_defs split: prod.splits)
qed

lemma start_state_no_event:
  "Call_node_event_func ev p k \<notin>
     set (drop (length (out w)) (out (snd (bsc_node_start_state env st w))))"
proof -
  obtain xs where "out (snd (bsc_node_start_state env st w)) = out w @ xs"
    and "\<forall>ev p k. Call_node_event_func ev p k \<notin> set xs"
    using start_state_out by blast
  then show ?thesis by simp
qed

lemma process_stop_event_emits:
  "Call_node_event_func BSC_NODE_EVENT_STOPPED None 0 \<in>
      set (drop (length (out w)) (out (bsc_node_process_stop_event env w))) \<longleftrightarrow>
   node_state w = BSC_NODE_STATE_STOPPING \<and> node_stopped env (node w)"
  using start_state_no_event [of BSC_NODE_EVENT_STOPPED None 0 w env BSC_NODE_STATE_RESTARTING]
  by (simp add: bsc_node_process_stop_event_def node_defs Let_def)

lemma process_start_event_emits:
  "Call_node_event_func BSC_NODE_EVENT_STARTED None 0 \<in>
      set (drop (length (out w)) (out (bsc_node_process_start_event env w))) \<longleftrightarrow>
   node_state w = BSC_NODE_STATE_STARTING \<and> node_started env (node w)"
  by (simp add: bsc_node_process_start_event_def node_defs Let_def)

lemma process_stop_event_stopping:
  "node_state w = BSC_NODE_STATE_STOPPING \<Longrightarrow> node_stopped env (node w) \<Longrightarrow>
   bsc_node_process_stop_event env w =
     w\<lparr>node := (node w)\<lparr>BSC_Node.state := BSC_NODE_STATE_IDLE\<rparr>,
       out := out w @ [Call_node_event_func BSC_NODE_EVENT_STOPPED None 0]\<rparr>"
  by (simp add: bsc_node_process_stop_event_def node_defs Let_def)

lemma process_start_event_starting:
  "node_state w = BSC_NODE_STATE_STARTING \<Longrightarrow> node_started env (node w) \<Longrightarrow>
   bsc_node_process_start_event env w =
     w\<lparr>node := (node w)\<lparr>BSC_Node.state := BSC_NODE_STATE_STARTED\<rparr>,
       out := out w @ [Call_node_event_func BSC_NODE_EVENT_STARTED None 0]\<rparr>"
  by (simp add: bsc_node_process_start_event_def node_defs Let_def)

lemma hub_function_started_emits:
  "node_emits w (bsc_hub_function_event env BSC_HUBF_EVENT_STARTED h w) BSC_NODE_EVENT_STARTED \<longleftrightarrow>
   node_state w = BSC_NODE_STATE_STARTING \<and> node_started env (node w)"
  using process_start_event_emits [of "bsc_global_mutex_lock w" env]
  by (simp add: node_emits_def bsc_hub_function_event_def node_defs Let_def)

lemma node_switch_started_emits:
  "\<exists>w'. bsc_node_switch_event env BSC_NODE_SWITCH_EVENT_STARTED h pdu k d w = Some w' \<and>
     (node_emits w w' BSC_NODE_EVENT_STARTED \<longleftrightarrow>
      node_state w = BSC_NODE_STATE_STARTING \<and> node_started env (node w))"
  using process_start_event_emits [of "bsc_global_mutex_lock w" env]
  by (simp add: node_emits_def bsc_node_switch_event_def node_defs Let_def)

lemma hub_connector_stopped_emits:
  "\<exists>w'. bsc_hub_connector_event env BSC_HUBC_EVENT_STOPPED h pdu k d w = Some w' \<and>
     (node_emits w w' BSC_NODE_EVENT_STOPPED \<longleftrightarrow>
      node_state w = BSC_NODE_STATE_STOPPING \<and>
      spec_all_stopped env ((node w)\<lparr>hub_connector := None\<rparr>))"
  using process_stop_event_emits
          [of "(bsc_global_mutex_lock w)\<lparr>node := (node w)\<lparr>hub_connector := None\<rparr>\<rparr>" env]
  by (simp add: node_emits_def bsc_hub_connector_event_def node_defs Let_def node_stopped_iff)

lemma hub_function_stopped_emits:
  "node_emits w (bsc_hub_function_event env BSC_HUBF_EVENT_STOPPED h w) BSC_NODE_EVENT_STOPPED \<longleftrightarrow>
      node_state w = BSC_NODE_STATE_STOPPING \<and>
      spec_all_stopped env ((node w)\<lparr>hub_function := None\<rparr>)"
  using process_stop_event_emits
          [of "(bsc_global_mutex_lock w)\<lparr>node := (node w)\<lparr>hub_function := None\<rparr>\<rparr>" env]
  by (simp add: node_emits_def bsc_hub_function_event_def node_defs Let_def node_stopped_iff)

lemma node_switch_stopped_emits:
  "\<exists>w'. bsc_node_switch_event env BSC_NODE_SWITCH_EVENT_STOPPED h pdu k d w = Some w' \<and>
     (node_emits w w' BSC_NODE_EVENT_STOPPED \<longleftrightarrow>
      node_state w = BSC_NODE_STATE_STOPPING \<and>
      spec_all_stopped env ((node w)\<lparr>node_switch := None\<rparr>))"
  using process_stop_event_emits
          [of "(bsc_global_mutex_lock w)\<lparr>node := (node w)\<lparr>node_switch := None\<rparr>\<rparr>" env]
  by (simp add: node_emits_def bsc_node_switch_event_def node_defs Let_def node_stopped_iff)

subsection \<open>The restart on a duplicate VMAC\<close>



lemma start_state_node_switch_ok:
  assumes "node_switch_enabled (conf (node w)) \<longrightarrow>
             fst (ext_node_switch_start env (conf (node w))) = BSC_SC_SUCCESS"
  shows "snd (start_state_node_switch env ret w) =
           w\<lparr>mutex := mutex w - 1,
             node := (node w)\<lparr>node_switch :=
                (if node_switch_enabled (conf (node w))
                 then snd (ext_node_switch_start env (conf (node w))) else node_switch (node w))\<rparr>,
             out := out w @ (if node_switch_enabled (conf (node w))
                             then [Call_node_switch_start (conf (node w))] else [])\<rparr>"
  using assms
  by (simp add: start_state_node_switch_def call_node_switch_start_def node_defs)

lemma start_state_hub_function_ok:
  assumes "hub_function_enabled (conf (node w)) \<longrightarrow>
             fst (ext_hub_function_start env (conf (node w))) = BSC_SC_SUCCESS"
    and "node_switch_enabled (conf (node w)) \<longrightarrow>
             fst (ext_node_switch_start env (conf (node w))) = BSC_SC_SUCCESS"
  shows "snd (start_state_hub_function env ret w) =
           w\<lparr>mutex := mutex w - 1,
             node := (node w)\<lparr>hub_function :=
                (if hub_function_enabled (conf (node w))
                 then snd (ext_hub_function_start env (conf (node w))) else hub_function (node w)),
                node_switch :=
                (if node_switch_enabled (conf (node w))
                 then snd (ext_node_switch_start env (conf (node w))) else node_switch (node w))\<rparr>,
             out := out w @
               (if hub_function_enabled (conf (node w))
                then [Call_hub_function_start (conf (node w))] else []) @
               (if node_switch_enabled (conf (node w))
                then [Call_node_switch_start (conf (node w))] else [])\<rparr>"
proof (cases "hub_function_enabled (conf (node w))")
  case True
  define w' where "w' = node_call (Call_hub_function_start (conf (node w)))
        (w\<lparr>node := (node w)\<lparr>hub_function :=
                                snd (ext_hub_function_start env (conf (node w)))\<rparr>\<rparr>)"
  have c: "conf (node w') = conf (node w)"
    by (simp add: w'_def node_defs)
  have ns: "node_switch_enabled (conf (node w')) \<longrightarrow>
             fst (ext_node_switch_start env (conf (node w'))) = BSC_SC_SUCCESS"
    using assms(2) c by simp
  have f: "fst (ext_hub_function_start env (conf (node w))) = BSC_SC_SUCCESS"
    using True assms(1) by simp
  have r: "call_hub_function_start env w = (BSC_SC_SUCCESS, w')"
    unfolding call_hub_function_start_def w'_def f by (rule refl)
  have eq: "start_state_hub_function env ret w = start_state_node_switch env BSC_SC_SUCCESS w'"
    using True by (simp add: start_state_hub_function_def r)
  show ?thesis
    unfolding eq start_state_node_switch_ok [OF ns]
    using True by (simp add: w'_def node_defs)
next
  case False
  then show ?thesis
    by (simp add: start_state_hub_function_def start_state_node_switch_ok [OF assms(2)])
qed

lemma restart_start_state:
  assumes "node_state w = BSC_NODE_STATE_RESTARTING"
    and "c' = (conf (node w))\<lparr>BSC_NODE_CONF.local_vmac :=
                 ext_generate_random_vmac env (BSC_NODE_CONF.local_vmac (conf (node w)))\<rparr>"
    and "fst (ext_hub_connector_start env c') = BSC_SC_SUCCESS"
    and "hub_function_enabled c' \<longrightarrow> fst (ext_hub_function_start env c') = BSC_SC_SUCCESS"
    and "node_switch_enabled c' \<longrightarrow> fst (ext_node_switch_start env c') = BSC_SC_SUCCESS"
  shows "snd (bsc_node_start_state env BSC_NODE_STATE_RESTARTING w) =
           w\<lparr>node := (node w)
                \<lparr>BSC_Node.state := BSC_NODE_STATE_RESTARTING,
                 conf := c',
                 hub_connector := snd (ext_hub_connector_start env c'),
                 hub_function := (if hub_function_enabled c'
                                  then snd (ext_hub_function_start env c') else None),
                 node_switch := (if node_switch_enabled c'
                                 then snd (ext_node_switch_start env c') else None)\<rparr>,
             out := out w @ [Call_hub_connector_start c'] @
               (if hub_function_enabled c' then [Call_hub_function_start c'] else []) @
               (if node_switch_enabled c' then [Call_node_switch_start c'] else [])\<rparr>"
proof -
  define w3 where "w3 = (bsc_global_mutex_lock w)
     \<lparr>node := (node w)\<lparr>BSC_Node.state := BSC_NODE_STATE_RESTARTING, hub_connector := None,
                        hub_function := None, node_switch := None, conf := c'\<rparr>\<rparr>"
  define w4 where "w4 = snd (call_hub_connector_start env w3)"
  have c4: "conf (node w4) = c'"
    by (simp add: w4_def w3_def call_hub_connector_start_def node_defs)
  have eq: "bsc_node_start_state env BSC_NODE_STATE_RESTARTING w =
              start_state_hub_function env BSC_SC_SUCCESS w4"
    using assms(3)
    by (simp add: bsc_node_start_state_def Let_def node_state_def w4_def w3_def assms(2)
          call_hub_connector_start_def bsc_global_mutex_lock_def node_call_def
          split: prod.splits)
  have hf: "hub_function_enabled (conf (node w4)) \<longrightarrow>
             fst (ext_hub_function_start env (conf (node w4))) = BSC_SC_SUCCESS"
    and ns: "node_switch_enabled (conf (node w4)) \<longrightarrow>
             fst (ext_node_switch_start env (conf (node w4))) = BSC_SC_SUCCESS"
    using assms(4,5) c4 by simp_all
  show ?thesis
    unfolding eq start_state_hub_function_ok [OF hf ns]
    by (simp add: w4_def w3_def call_hub_connector_start_def node_defs)
qed

lemma restart_on_all_stopped:
  assumes "node_state w = BSC_NODE_STATE_RESTARTING"
    and "node_stopped env (node w)"
  shows "bsc_node_process_stop_event env w =
           snd (bsc_node_start_state env BSC_NODE_STATE_RESTARTING w)"
  using assms by (simp add: bsc_node_process_stop_event_def Let_def)

lemma restarted_on_all_started:
  assumes "node_state w = BSC_NODE_STATE_RESTARTING" and "node_started env (node w)"
  shows "bsc_node_process_start_event env w =
           w\<lparr>node := (node w)\<lparr>BSC_Node.state := BSC_NODE_STATE_STARTED\<rparr>,
             out := out w @ [Call_node_event_func BSC_NODE_EVENT_RESTARTED None 0]\<rparr>"
  using assms by (simp add: bsc_node_process_start_event_def node_defs Let_def)

lemma started_start_event_noop:
  assumes "node_state w = BSC_NODE_STATE_STARTED"
  shows "bsc_node_process_start_event env w = w"
  using assms by (simp add: bsc_node_process_start_event_def node_defs Let_def)

subsection \<open>The concrete worlds\<close>

lemma resolution_zero_memset: "memset_resolution resolution_zero = resolution_zero"
  by (simp add: memset_resolution_def resolution_zero_def)

lemma node_world_starting_eval:
  "node_world_starting =
     node_world_idle\<lparr>node := (node node_world_idle)
          \<lparr>BSC_Node.state := BSC_NODE_STATE_STARTING,
           hub_connector := Some 1, hub_function := Some 2, node_switch := Some 3\<rparr>,
        out := [Call_hub_connector_start node_conf_example,
                Call_hub_function_start node_conf_example,
                Call_node_switch_start node_conf_example]\<rparr>"
  by (simp add: node_world_starting_def bsc_node_start_def bsc_node_start_state_def
        start_state_hub_function_def start_state_node_switch_def call_hub_connector_start_def
        call_hub_function_start_def call_node_switch_start_def node_env_ok_def
        node_world_idle_def node_conf_example_def resolution_zero_memset node_defs Let_def)

lemma node_world_started_eval:
  "node_world_started =
     node_world_starting\<lparr>node := (node node_world_starting)
          \<lparr>BSC_Node.state := BSC_NODE_STATE_STARTED\<rparr>,
        out := out node_world_starting @ [Call_node_event_func BSC_NODE_EVENT_STARTED None 0]\<rparr>"
  by (simp add: node_world_started_def bsc_hub_function_event_def
        bsc_node_process_start_event_def node_started_def node_world_starting_eval
        node_env_ok_def node_world_idle_def node_conf_example_def node_defs Let_def)

lemma node_world_restarting_eval:
  "node_world_restarting =
     node_world_started\<lparr>node := (node node_world_started)
          \<lparr>BSC_Node.state := BSC_NODE_STATE_RESTARTING\<rparr>,
        out := out node_world_started @
          [Call_hub_connector_stop (Some 1), Call_hub_function_stop (Some 2),
           Call_node_switch_stop (Some 3)]\<rparr>"
  by (simp add: node_world_restarting_def bsc_hub_function_event_def bsc_node_restart_def
        node_world_started_eval node_world_starting_eval
        node_world_idle_def node_conf_example_def node_defs Let_def)

subsection \<open>Reports and runs\<close>




lemma clear_handle_state [simp]: "BSC_Node.state (clear_handle c nd) = BSC_Node.state nd"
  by (cases c) simp_all

lemma clear_handle_conf [simp]: "conf (clear_handle c nd) = conf nd"
  by (cases c) simp_all
















subsection \<open>What a report adds to the RESTARTED events\<close>













lemma count_lock [simp]:
  "restarted_count (bsc_global_mutex_lock w) = restarted_count w"
  "restarted_count (bsc_global_mutex_unlock w) = restarted_count w"
  "restarted_count (w\<lparr>node := nd\<rparr>) = restarted_count w"
  "restarted_count (w\<lparr>mutex := m\<rparr>) = restarted_count w"
  by (simp_all add: restarted_count_def node_defs)






subsection \<open>A refused start, and the run of a restart\<close>






















lemma node_world_restarting_facts:
  "node_state node_world_restarting = BSC_NODE_STATE_RESTARTING"
  "conf (node node_world_restarting) = node_conf_example"
  "hub_connector (node node_world_restarting) = Some 1"
  "hub_function (node node_world_restarting) = Some 2"
  "node_switch (node node_world_restarting) = Some 3"
  by (simp_all add: node_world_restarting_eval node_world_started_eval node_world_starting_eval
        node_world_idle_def node_state_def)







text \<open>
  Claim C5, as amended. The test of \<^verbatim>\<open>bsc_node_process_stop_event\<close> is the
  all-stopped predicate of the specification. The test of
  \<^verbatim>\<open>bsc_node_process_start_event\<close> is: (hub-function handle null or not enabled or
  started) and (node-switch handle null or not enabled or started); the hub connector is
  not part of it. The node evaluates these tests on every STARTED and STOPPED event of a
  sub-component (a STOPPED event first clears that sub-component's handle); it emits
  STARTED if and only if the test holds and its state is STARTING, and STOPPED if and only
  if the test holds and its state is STOPPING.
\<close>

theorem node_aggregate_start_stop:
  "node_stopped env nd = spec_all_stopped env nd \<and>
   node_started env nd =
     ((hub_function nd = None \<or> \<not> hub_function_enabled (conf nd) \<or>
         ext_hub_function_started env (hub_function nd)) \<and>
      (node_switch nd = None \<or> \<not> node_switch_enabled (conf nd) \<or>
         ext_node_switch_started env (node_switch nd))) \<and>
   (node_emits w (bsc_hub_function_event env BSC_HUBF_EVENT_STARTED h w) BSC_NODE_EVENT_STARTED
      \<longleftrightarrow> node_state w = BSC_NODE_STATE_STARTING \<and> node_started env (node w)) \<and>
   (\<exists>w'. bsc_node_switch_event env BSC_NODE_SWITCH_EVENT_STARTED h pdu k d w = Some w' \<and>
      (node_emits w w' BSC_NODE_EVENT_STARTED \<longleftrightarrow>
       node_state w = BSC_NODE_STATE_STARTING \<and> node_started env (node w))) \<and>
   (\<exists>w'. bsc_hub_connector_event env BSC_HUBC_EVENT_STOPPED h pdu k d w = Some w' \<and>
      (node_emits w w' BSC_NODE_EVENT_STOPPED \<longleftrightarrow>
       node_state w = BSC_NODE_STATE_STOPPING \<and>
       spec_all_stopped env ((node w)\<lparr>hub_connector := None\<rparr>))) \<and>
   (node_emits w (bsc_hub_function_event env BSC_HUBF_EVENT_STOPPED h w) BSC_NODE_EVENT_STOPPED
      \<longleftrightarrow> node_state w = BSC_NODE_STATE_STOPPING \<and>
          spec_all_stopped env ((node w)\<lparr>hub_function := None\<rparr>)) \<and>
   (\<exists>w'. bsc_node_switch_event env BSC_NODE_SWITCH_EVENT_STOPPED h pdu k d w = Some w' \<and>
      (node_emits w w' BSC_NODE_EVENT_STOPPED \<longleftrightarrow>
       node_state w = BSC_NODE_STATE_STOPPING \<and>
       spec_all_stopped env ((node w)\<lparr>node_switch := None\<rparr>)))"
  by (intro conjI)
    (rule node_stopped_iff node_started_iff hub_function_started_emits node_switch_started_emits
       hub_connector_stopped_emits hub_function_stopped_emits node_switch_stopped_emits)+

lemma node_world_stopping_eval:
  "node_world_stopping =
     node_world_started\<lparr>node := (node node_world_started)
          \<lparr>BSC_Node.state := BSC_NODE_STATE_STOPPING\<rparr>,
        out := out node_world_started @
          [Call_hub_connector_stop (Some 1), Call_hub_function_stop (Some 2),
           Call_node_switch_stop (Some 3)]\<rparr>"
  by (simp add: node_world_stopping_def bsc_node_stop_def
        node_world_started_eval node_world_starting_eval
        node_world_idle_def node_conf_example_def node_defs Let_def)

theorem node_aggregate_start_stop_witness:
  "node_state node_world_starting = BSC_NODE_STATE_STARTING \<and>
   node_started node_env_ok (node node_world_starting) \<and>
   node_emits node_world_starting
     (bsc_hub_function_event node_env_ok BSC_HUBF_EVENT_STARTED (Some 2) node_world_starting)
     BSC_NODE_EVENT_STARTED \<and>
   node_state node_world_stopping = BSC_NODE_STATE_STOPPING \<and>
   spec_all_stopped node_env_ok ((node node_world_stopping)\<lparr>hub_function := None\<rparr>) \<and>
   node_emits node_world_stopping
     (bsc_hub_function_event node_env_ok BSC_HUBF_EVENT_STOPPED (Some 2) node_world_stopping)
     BSC_NODE_EVENT_STOPPED \<and>
   \<not> node_emits node_world_stopping
     (bsc_hub_function_event
        (node_env_ok\<lparr>ext_node_switch_stopped := (\<lambda>_. False)\<rparr>)
        BSC_HUBF_EVENT_STOPPED (Some 2) node_world_stopping)
     BSC_NODE_EVENT_STOPPED"
proof -
  have a: "node_state node_world_starting = BSC_NODE_STATE_STARTING"
    by (simp add: node_world_starting_eval node_state_def)
  have b: "node_started node_env_ok (node node_world_starting)"
    by (simp add: node_started_def node_env_ok_def)
  have c: "node_state node_world_stopping = BSC_NODE_STATE_STOPPING"
    by (simp add: node_world_stopping_eval node_state_def)
  have d: "spec_all_stopped node_env_ok ((node node_world_stopping)\<lparr>hub_function := None\<rparr>)"
    by (simp add: spec_all_stopped_def node_env_ok_def)
  have e: "\<not> spec_all_stopped (node_env_ok\<lparr>ext_node_switch_stopped := (\<lambda>_. False)\<rparr>)
              ((node node_world_stopping)\<lparr>hub_function := None\<rparr>)"
    by (simp add: spec_all_stopped_def node_world_stopping_eval node_world_started_eval
          node_world_starting_eval node_world_idle_def node_conf_example_def)
  note T = node_aggregate_start_stop [where h = "Some 2"]
  note started = T [THEN conjunct2, THEN conjunct2, THEN conjunct1]
  note stopped = T [THEN conjunct2, THEN conjunct2, THEN conjunct2, THEN conjunct2,
      THEN conjunct2, THEN conjunct1]
  have f: "node_emits node_world_starting
     (bsc_hub_function_event node_env_ok BSC_HUBF_EVENT_STARTED (Some 2) node_world_starting)
     BSC_NODE_EVENT_STARTED"
    using a b by (simp only: started simp_thms)
  have g: "node_emits node_world_stopping
     (bsc_hub_function_event node_env_ok BSC_HUBF_EVENT_STOPPED (Some 2) node_world_stopping)
     BSC_NODE_EVENT_STOPPED"
    using c d by (simp only: stopped simp_thms)
  have i: "\<not> node_emits node_world_stopping
     (bsc_hub_function_event
        (node_env_ok\<lparr>ext_node_switch_stopped := (\<lambda>_. False)\<rparr>)
        BSC_HUBF_EVENT_STOPPED (Some 2) node_world_stopping)
     BSC_NODE_EVENT_STOPPED"
    using e by (simp only: stopped simp_thms)
  show ?thesis
    by (intro conjI) (fact a b c d f g i)+
qed

text \<open>
  Claim C5 as stated fails. In RESTARTING, with every sub-component (the hub connector
  too) reporting started, a STARTED event makes the node emit RESTARTED and not STARTED;
  with every sub-component reporting stopped, a STOPPED event makes it run the start
  sequence and emit no STOPPED. In STARTING, with a live hub connector that does not
  report started and the two other sub-components started, the node emits STARTED.
\<close>

theorem node_aggregate_start_stop_counterexample:
  "node_state node_world_restart_begun = BSC_NODE_STATE_RESTARTING \<and>
   spec_all_started (\<lambda>_. True) node_env_ok (node node_world_restart_begun) \<and>
   \<not> node_emits node_world_restart_begun
       (bsc_hub_function_event node_env_ok BSC_HUBF_EVENT_STARTED (Some 2) node_world_restart_begun)
       BSC_NODE_EVENT_STARTED \<and>
   node_emits node_world_restart_begun
       (bsc_hub_function_event node_env_ok BSC_HUBF_EVENT_STARTED (Some 2) node_world_restart_begun)
       BSC_NODE_EVENT_RESTARTED \<and>
   node_state node_world_restarting = BSC_NODE_STATE_RESTARTING \<and>
   spec_all_stopped node_env_ok ((node node_world_restarting)\<lparr>hub_function := None\<rparr>) \<and>
   \<not> node_emits node_world_restarting
       (bsc_hub_function_event node_env_ok BSC_HUBF_EVENT_STOPPED (Some 2) node_world_restarting)
       BSC_NODE_EVENT_STOPPED \<and>
   node_state node_world_starting = BSC_NODE_STATE_STARTING \<and>
   hub_connector (node node_world_starting) = Some 1 \<and>
   \<not> spec_all_started (\<lambda>_. False) node_env_ok (node node_world_starting) \<and>
   node_emits node_world_starting
       (bsc_hub_function_event node_env_ok BSC_HUBF_EVENT_STARTED (Some 2) node_world_starting)
       BSC_NODE_EVENT_STARTED"
proof -
  have begun: "node_world_restart_begun =
      node_world_restarting\<lparr>node := (node node_world_restarting)
             \<lparr>BSC_Node.state := BSC_NODE_STATE_RESTARTING,
              conf := node_conf_example\<lparr>BSC_NODE_CONF.local_vmac :=
                        [0x72, 0x11, 0x22, 0x33, 0x44, 0x55]\<rparr>,
              hub_connector := Some 1, hub_function := Some 2, node_switch := Some 3\<rparr>,
          out := out node_world_restarting @
            [Call_hub_connector_start (node_conf_example\<lparr>BSC_NODE_CONF.local_vmac :=
                        [0x72, 0x11, 0x22, 0x33, 0x44, 0x55]\<rparr>),
             Call_hub_function_start (node_conf_example\<lparr>BSC_NODE_CONF.local_vmac :=
                        [0x72, 0x11, 0x22, 0x33, 0x44, 0x55]\<rparr>),
             Call_node_switch_start (node_conf_example\<lparr>BSC_NODE_CONF.local_vmac :=
                        [0x72, 0x11, 0x22, 0x33, 0x44, 0x55]\<rparr>)]\<rparr>"
    unfolding node_world_restart_begun_def
    by (subst restart_on_all_stopped)
       (simp_all add: node_world_restarting_facts node_stopped_iff spec_all_stopped_def
          restart_start_state [where c' = "node_conf_example\<lparr>BSC_NODE_CONF.local_vmac :=
                        [0x72, 0x11, 0x22, 0x33, 0x44, 0x55]\<rparr>"]
          node_env_ok_def node_conf_example_def)
  have s1: "node_state node_world_restart_begun = BSC_NODE_STATE_RESTARTING"
    by (simp add: begun node_state_def)
  have s2: "spec_all_started (\<lambda>_. True) node_env_ok (node node_world_restart_begun)"
    by (simp add: spec_all_started_def node_env_ok_def)
  have s3: "\<not> node_emits node_world_restart_begun
       (bsc_hub_function_event node_env_ok BSC_HUBF_EVENT_STARTED (Some 2) node_world_restart_begun)
       BSC_NODE_EVENT_STARTED"
    using s1 by (simp add: hub_function_started_emits)
  have s4: "node_emits node_world_restart_begun
       (bsc_hub_function_event node_env_ok BSC_HUBF_EVENT_STARTED (Some 2) node_world_restart_begun)
       BSC_NODE_EVENT_RESTARTED"
    using s1
    by (simp add: node_emits_def bsc_hub_function_event_def bsc_node_process_start_event_def
          node_started_def node_env_ok_def node_defs Let_def)
  have s5: "spec_all_stopped node_env_ok ((node node_world_restarting)\<lparr>hub_function := None\<rparr>)"
    by (simp add: spec_all_stopped_def node_env_ok_def)
  have s6: "\<not> node_emits node_world_restarting
       (bsc_hub_function_event node_env_ok BSC_HUBF_EVENT_STOPPED (Some 2) node_world_restarting)
       BSC_NODE_EVENT_STOPPED"
    using node_world_restarting_facts(1) by (simp add: hub_function_stopped_emits)
  have s7: "node_state node_world_starting = BSC_NODE_STATE_STARTING"
    "hub_connector (node node_world_starting) = Some 1"
    by (simp_all add: node_world_starting_eval node_state_def)
  have s8: "\<not> spec_all_started (\<lambda>_. False) node_env_ok (node node_world_starting)"
    by (simp add: spec_all_started_def s7)
  have s9: "node_emits node_world_starting
       (bsc_hub_function_event node_env_ok BSC_HUBF_EVENT_STARTED (Some 2) node_world_starting)
       BSC_NODE_EVENT_STARTED"
    using s7(1) by (simp add: hub_function_started_emits node_started_def node_env_ok_def)
  show ?thesis
    by (intro conjI) (fact s1 s2 s3 s4 node_world_restarting_facts(1) s5 s6 s7 s8 s9)+
qed

subsection \<open>The address resolution table\<close>

lemma get_address_resolution_loop_Some:
  "get_address_resolution_loop env rs i v = Some k \<longleftrightarrow>
     i \<le> k \<and> k - i < length rs \<and>
     BSC_ADDRESS_RESOLUTION.used (rs ! (k - i)) \<and> vmac (rs ! (k - i)) = v \<and>
     \<not> ext_mstimer_expired env (fresh_timer (rs ! (k - i))) \<and>
     (\<forall>j < k - i. \<not> (BSC_ADDRESS_RESOLUTION.used (rs ! j) \<and> vmac (rs ! j) = v))"
proof (induction rs arbitrary: i)
  case Nil
  show ?case by simp
next
  case (Cons r rs)
  show ?case
  proof (cases "BSC_ADDRESS_RESOLUTION.used r \<and> v = vmac r")
    case True
    have "k - i = 0" if "\<forall>j < k - i. \<not> (BSC_ADDRESS_RESOLUTION.used ((r # rs) ! j) \<and>
                                          vmac ((r # rs) ! j) = v)"
    proof (rule ccontr)
      assume "k - i \<noteq> 0"
      then have "0 < k - i" by simp
      with that have "\<not> (BSC_ADDRESS_RESOLUTION.used ((r # rs) ! 0) \<and> vmac ((r # rs) ! 0) = v)"
        by blast
      with True show False by simp
    qed
    with True show ?thesis by auto
  next
    case False
    have step: "get_address_resolution_loop env (r # rs) i v =
                  get_address_resolution_loop env rs (Suc i) v"
      using False by auto
    show ?thesis
      unfolding step Cons.IH
    proof (intro iffI; elim conjE; intro conjI)
      assume a: "Suc i \<le> k" "k - Suc i < length rs"
        "BSC_ADDRESS_RESOLUTION.used (rs ! (k - Suc i))" "vmac (rs ! (k - Suc i)) = v"
        "\<not> ext_mstimer_expired env (fresh_timer (rs ! (k - Suc i)))"
        "\<forall>j<k - Suc i. \<not> (BSC_ADDRESS_RESOLUTION.used (rs ! j) \<and> vmac (rs ! j) = v)"
      have ki: "k - i = Suc (k - Suc i)" using a(1) by simp
      show "i \<le> k" using a(1) by simp
      show "k - i < length (r # rs)" using a(2) ki by simp
      show "BSC_ADDRESS_RESOLUTION.used ((r # rs) ! (k - i))" using a(3) ki by simp
      show "vmac ((r # rs) ! (k - i)) = v" using a(4) ki by simp
      show "\<not> ext_mstimer_expired env (fresh_timer ((r # rs) ! (k - i)))" using a(5) ki by simp
      show "\<forall>j<k - i. \<not> (BSC_ADDRESS_RESOLUTION.used ((r # rs) ! j) \<and> vmac ((r # rs) ! j) = v)"
      proof (intro allI impI)
        fix j assume "j < k - i"
        then show "\<not> (BSC_ADDRESS_RESOLUTION.used ((r # rs) ! j) \<and> vmac ((r # rs) ! j) = v)"
          using a(6) False ki by (cases j) auto
      qed
    next
      assume b: "i \<le> k" "k - i < length (r # rs)"
        "BSC_ADDRESS_RESOLUTION.used ((r # rs) ! (k - i))" "vmac ((r # rs) ! (k - i)) = v"
        "\<not> ext_mstimer_expired env (fresh_timer ((r # rs) ! (k - i)))"
        "\<forall>j<k - i. \<not> (BSC_ADDRESS_RESOLUTION.used ((r # rs) ! j) \<and> vmac ((r # rs) ! j) = v)"
      have "k - i \<noteq> 0" using b(3,4) False by (auto simp: nth_Cons')
      then have ki: "k - i = Suc (k - Suc i)" by simp
      show "Suc i \<le> k" using ki by simp
      show "k - Suc i < length rs" using b(2) ki by simp
      show "BSC_ADDRESS_RESOLUTION.used (rs ! (k - Suc i))" using b(3) ki by simp
      show "vmac (rs ! (k - Suc i)) = v" using b(4) ki by simp
      show "\<not> ext_mstimer_expired env (fresh_timer (rs ! (k - Suc i)))" using b(5) ki by simp
      show "\<forall>j<k - Suc i. \<not> (BSC_ADDRESS_RESOLUTION.used (rs ! j) \<and> vmac (rs ! j) = v)"
      proof (intro allI impI)
        fix j assume "j < k - Suc i"
        then have "Suc j < k - i" using ki by simp
        with b(6) have "\<not> (BSC_ADDRESS_RESOLUTION.used ((r # rs) ! Suc j) \<and>
                            vmac ((r # rs) ! Suc j) = v)" by blast
        then show "\<not> (BSC_ADDRESS_RESOLUTION.used (rs ! j) \<and> vmac (rs ! j) = v)" by simp
      qed
    qed
  qed
qed

lemma get_address_resolution_keeps_world:
  "snd (bsc_node_get_address_resolution env v w) = w"
  by (simp add: bsc_node_get_address_resolution_def node_defs Let_def split: option.splits)

text \<open>
  Claim C7, as amended. \<^verbatim>\<open>bsc_node_get_address_resolution\<close> leaves the world as it
  was: the table, the timers and the mutex count. On a node that is not STARTED it returns
  none. On a STARTED node it returns the entry \<open>k\<close> for the VMAC \<open>a\<close> if and only if
  \<open>k\<close> is the first used entry of the table recorded for \<open>a\<close> and its freshness
  timer has not expired.
\<close>

theorem get_address_resolution_fresh:
  "snd (bsc_node_get_address_resolution env v w) = w \<and>
   (node_state w \<noteq> BSC_NODE_STATE_STARTED \<longrightarrow>
      fst (bsc_node_get_address_resolution env v w) = None) \<and>
   (node_state w = BSC_NODE_STATE_STARTED \<longrightarrow>
      (fst (bsc_node_get_address_resolution env (Some a) w) = Some k \<longleftrightarrow>
         k < length (resolution (node w)) \<and>
         BSC_ADDRESS_RESOLUTION.used (resolution (node w) ! k) \<and>
         vmac (resolution (node w) ! k) = a \<and>
         \<not> ext_mstimer_expired env (fresh_timer (resolution (node w) ! k)) \<and>
         (\<forall>j < k. \<not> (BSC_ADDRESS_RESOLUTION.used (resolution (node w) ! j) \<and>
                       vmac (resolution (node w) ! j) = a))))"
proof (intro conjI impI)
  show "snd (bsc_node_get_address_resolution env v w) = w"
    by (rule get_address_resolution_keeps_world)
next
  assume "node_state w \<noteq> BSC_NODE_STATE_STARTED"
  then show "fst (bsc_node_get_address_resolution env v w) = None"
    by (simp add: bsc_node_get_address_resolution_def node_defs Let_def split: option.splits)
next
  assume "node_state w = BSC_NODE_STATE_STARTED"
  then have "fst (bsc_node_get_address_resolution env (Some a) w) =
               get_address_resolution_loop env (resolution (node w)) 0 a"
    by (simp add: bsc_node_get_address_resolution_def node_defs Let_def)
  then show "fst (bsc_node_get_address_resolution env (Some a) w) = Some k \<longleftrightarrow>
         k < length (resolution (node w)) \<and>
         BSC_ADDRESS_RESOLUTION.used (resolution (node w) ! k) \<and>
         vmac (resolution (node w) ! k) = a \<and>
         \<not> ext_mstimer_expired env (fresh_timer (resolution (node w) ! k)) \<and>
         (\<forall>j < k. \<not> (BSC_ADDRESS_RESOLUTION.used (resolution (node w) ! j) \<and>
                       vmac (resolution (node w) ! j) = a))"
    by (simp add: get_address_resolution_loop_Some)
qed

lemma node_record_peer_eval:
  assumes "resolution (node w) = [resolution_zero, resolution_zero]"
  shows "node_record_peer w =
           w\<lparr>node := (node w)\<lparr>resolution :=
                [resolution_zero\<lparr>BSC_ADDRESS_RESOLUTION.used := True, vmac := peer_vmac\<rparr>,
                 resolution_zero]\<rparr>\<rparr>"
proof -
  have z: "\<not> BSC_ADDRESS_RESOLUTION.used resolution_zero" "urls_num resolution_zero = 0"
    by (simp_all add: resolution_zero_def)
  have r: "resolution_zero\<lparr>BSC_ADDRESS_RESOLUTION.used := True, vmac := peer_vmac, urls_num := 0,
              fresh_timer := fresh_timer resolution_zero\<rparr> =
           resolution_zero\<lparr>BSC_ADDRESS_RESOLUTION.used := True, vmac := peer_vmac\<rparr>"
    by (simp add: resolution_zero_def)
  show ?thesis
    using assms z
    by (simp add: node_record_peer_def bsc_node_process_received_def process_received_switch_def
          nak_must_understand_example_def node_env_ok_def r)
qed

lemma node_world_recorded_eval:
  "node_world_starting_recorded =
     node_world_starting\<lparr>node := (node node_world_starting)\<lparr>resolution :=
        [resolution_zero\<lparr>BSC_ADDRESS_RESOLUTION.used := True, vmac := peer_vmac\<rparr>,
         resolution_zero]\<rparr>\<rparr>"
  "node_world_started_recorded =
     node_world_started\<lparr>node := (node node_world_started)\<lparr>resolution :=
        [resolution_zero\<lparr>BSC_ADDRESS_RESOLUTION.used := True, vmac := peer_vmac\<rparr>,
         resolution_zero]\<rparr>\<rparr>"
  by (simp_all add: node_world_starting_recorded_def node_world_started_recorded_def
        node_record_peer_eval node_world_started_eval node_world_starting_eval node_world_idle_def)

theorem get_address_resolution_fresh_witness:
  "node_state node_world_started_recorded = BSC_NODE_STATE_STARTED \<and>
   bsc_node_get_address_resolution node_env_ok (Some peer_vmac) node_world_started_recorded =
     (Some 0, node_world_started_recorded) \<and>
   bsc_node_get_address_resolution (node_env_ok\<lparr>ext_mstimer_expired := (\<lambda>_. True)\<rparr>)
       (Some peer_vmac) node_world_started_recorded =
     (None, node_world_started_recorded) \<and>
   bsc_node_get_address_resolution node_env_ok (Some [1, 2, 3, 4, 5, 6])
       node_world_started_recorded =
     (None, node_world_started_recorded)"
proof -
  let ?w = node_world_started_recorded
  have s: "node_state ?w = BSC_NODE_STATE_STARTED"
    by (simp add: node_world_recorded_eval node_world_started_eval node_state_def)
  have tbl: "resolution (node ?w) =
        [resolution_zero\<lparr>BSC_ADDRESS_RESOLUTION.used := True, vmac := peer_vmac\<rparr>,
         resolution_zero]"
    by (simp add: node_world_recorded_eval)
  note T = get_address_resolution_fresh [where w = ?w]
  have keep: "snd (bsc_node_get_address_resolution env v ?w) = ?w" for env v
    using T [of env v] by blast
  have iff: "fst (bsc_node_get_address_resolution env (Some a) ?w) = Some k \<longleftrightarrow>
         k < length (resolution (node ?w)) \<and>
         BSC_ADDRESS_RESOLUTION.used (resolution (node ?w) ! k) \<and>
         vmac (resolution (node ?w) ! k) = a \<and>
         \<not> ext_mstimer_expired env (fresh_timer (resolution (node ?w) ! k)) \<and>
         (\<forall>j < k. \<not> (BSC_ADDRESS_RESOLUTION.used (resolution (node ?w) ! j) \<and>
                       vmac (resolution (node ?w) ! j) = a))" for env a k
    using T [of env "Some a" a k] s by blast
  have a: "fst (bsc_node_get_address_resolution node_env_ok (Some peer_vmac) ?w) = Some 0"
    unfolding iff tbl by (simp add: node_env_ok_def)
  have b: "fst (bsc_node_get_address_resolution (node_env_ok\<lparr>ext_mstimer_expired := (\<lambda>_. True)\<rparr>)
                  (Some peer_vmac) ?w) = None"
  proof (cases "fst (bsc_node_get_address_resolution
                       (node_env_ok\<lparr>ext_mstimer_expired := (\<lambda>_. True)\<rparr>) (Some peer_vmac) ?w)")
    case None
    then show ?thesis .
  next
    case (Some k)
    then show ?thesis unfolding iff by simp
  qed
  have c: "fst (bsc_node_get_address_resolution node_env_ok (Some [1, 2, 3, 4, 5, 6]) ?w) = None"
  proof (cases "fst (bsc_node_get_address_resolution node_env_ok (Some [1, 2, 3, 4, 5, 6]) ?w)")
    case None
    then show ?thesis .
  next
    case (Some k)
    then have "k < 2 \<and> BSC_ADDRESS_RESOLUTION.used (resolution (node ?w) ! k) \<and>
               vmac (resolution (node ?w) ! k) = [1, 2, 3, 4, 5, 6]"
      unfolding iff tbl by simp
    then show ?thesis
      unfolding tbl by (auto simp: less_2_cases_iff peer_vmac_def resolution_zero_def)
  qed
  show ?thesis
    using s a b c keep by (simp add: prod_eq_iff)
qed

text \<open>
  Claim C7 as stated fails on a node that is not STARTED: a STARTING node that has
  recorded an entry for the peer, with its freshness timer not expired, returns none.
\<close>

theorem get_address_resolution_counterexample:
  "node_state node_world_starting_recorded = BSC_NODE_STATE_STARTING \<and>
   BSC_ADDRESS_RESOLUTION.used (resolution (node node_world_starting_recorded) ! 0) \<and>
   vmac (resolution (node node_world_starting_recorded) ! 0) = peer_vmac \<and>
   \<not> ext_mstimer_expired node_env_ok
        (fresh_timer (resolution (node node_world_starting_recorded) ! 0)) \<and>
   fst (bsc_node_get_address_resolution node_env_ok (Some peer_vmac)
          node_world_starting_recorded) = None"
  by (simp add: node_world_recorded_eval node_world_starting_eval node_state_def
        bsc_node_get_address_resolution_def node_env_ok_def bsc_global_mutex_lock_def Let_def)

subsection \<open>Received PDUs: the must-understand scan and the URL parser\<close>

lemma must_understand_scan_no_result:
  "\<not> ext_need_send_bvlc_result env d \<Longrightarrow> must_understand_scan env d opts w = (False, w)"
  by (induction opts) simp_all

lemma must_understand_scan_result:
  assumes "ext_need_send_bvlc_result env d" and "list_ex must_understand opts"
  shows "fst (must_understand_scan env d opts w)"
  using assms by (induction opts) (auto simp: Let_def)

lemma process_received_ignores_options:
  assumes "\<not> ext_need_send_bvlc_result env d"
  shows "bsc_node_process_received env pdu k d w = process_received_switch env pdu k d w"
  by (simp add: bsc_node_process_received_def must_understand_scan_no_result [OF assms])

lemma ack_loop_short:
  "int (length str) \<le> 0x20 \<Longrightarrow>
   ack_loop cap str i j st urls = Some (max i (int (length str)), j, st, urls)"
proof (induction cap str i j st urls rule: ack_loop.induct)
  case (1 cap str i j st urls)
  show ?case
  proof (cases "i < int (length str)")
    case True
    then have ne: "i \<noteq> 0x20" using "1.prems" by simp
    have "ack_loop cap str i j st urls = ack_loop cap str (i + 1) j st urls"
      using True ne by (subst ack_loop.simps) simp
    also have "\<dots> = Some (max (i + 1) (int (length str)), j, st, urls)"
      using "1.IH"(3) [OF True ne "1.prems"] .
    finally show ?thesis using True by (simp add: max_def)
  next
    case False
    then show ?thesis by (subst ack_loop.simps) (simp add: max_def)
  qed
qed

lemma parse_short:
  assumes "int (length str) \<le> 0x20"
  shows "parse_address_resolution_ack cap str r =
           (if 0 < length str \<and> int (length str) \<le> cap
            then (case store_url (utf8_urls r) 0 str 0 (int (length str)) of
                    None \<Rightarrow> None
                  | Some urls' \<Rightarrow> Some (r\<lparr>utf8_urls := urls', urls_num := 1\<rparr>))
            else Some (r\<lparr>utf8_urls := utf8_urls r, urls_num := 0\<rparr>))"
proof -
  have l: "ack_loop cap str 0 0 0 (utf8_urls (r\<lparr>urls_num := 0\<rparr>)) =
             Some (int (length str), 0, 0, utf8_urls r)"
    using ack_loop_short [OF assms, of cap 0 0 0 "utf8_urls r"] by simp
  show ?thesis
  proof (cases "0 < length str \<and> int (length str) \<le> cap")
    case True
    then show ?thesis
      unfolding parse_address_resolution_ack_def l by (simp split: option.splits)
  next
    case False
    then have "\<not> (int (length str) - 0 > 0 \<and> int (length str) \<le> cap)" by simp
    then show ?thesis
      unfolding parse_address_resolution_ack_def l using False by auto
  qed
qed

lemma len18: "int (length ''wss://a  wss://bbb'') \<le> 0x20"
  by simp

text \<open>
  Claim C4 fails on the code. The loop tests the index against 0x20, not the octet, so a
  payload of at most 32 octets is never split: the payload with the two URLs and a double
  space is stored as at most one URL, never as the two.
\<close>

theorem ack_double_space_not_split:
  "parse_address_resolution_ack cap ''wss://a  wss://bbb'' r = Some r' \<Longrightarrow>
     urls_num r' \<le> 1 \<and> stored_urls r' \<noteq> [''wss://a'', ''wss://bbb'']"
proof -
  assume a: "parse_address_resolution_ack cap ''wss://a  wss://bbb'' r = Some r'"
  have n: "urls_num r' \<le> 1"
    using a unfolding parse_short [OF len18]
    by (auto split: if_splits option.splits)
  then have "length (stored_urls r') \<le> 1"
    by (simp add: stored_urls_def)
  then have "stored_urls r' \<noteq> [''wss://a'', ''wss://bbb'']"
    by auto
  with n show ?thesis by simp
qed

lemma ack_example_parsed:
  "parse_address_resolution_ack 128 ''wss://a  wss://bbb''
     (resolution_zero\<lparr>BSC_ADDRESS_RESOLUTION.used := True, vmac := peer_vmac\<rparr>) =
   Some (resolution_zero\<lparr>BSC_ADDRESS_RESOLUTION.used := True, vmac := peer_vmac,
           utf8_urls := [''wss://a  wss://bbb'' @ replicate 111 (CHR 0x00),
                         replicate 129 (CHR 0x00)],
           urls_num := 1\<rparr>)"
proof -
  have r: "replicate 111 (CHR 0x00) = CHR 0x00 # replicate 110 (CHR 0x00)"
  proof -
    have "(111::nat) = Suc 110" by simp
    then have "replicate 111 (CHR 0x00) = replicate (Suc 110) (CHR 0x00)" by (rule arg_cong)
    then show ?thesis by (simp only: replicate_Suc)
  qed
  have s: "store_url [replicate 129 (CHR 0x00), replicate 129 (CHR 0x00)] 0
             ''wss://a  wss://bbb'' 0 18 =
           Some [''wss://a  wss://bbb'' @ replicate 111 (CHR 0x00), replicate 129 (CHR 0x00)]"
    unfolding store_url_def
    by (simp add: list_update_append r)
  show ?thesis
    unfolding parse_short [OF len18]
    using s by (simp add: resolution_zero_def)
qed

text \<open>
  With 128 for the size cap and two rows, the payload is stored whole, as the one URL of
  the entry, and that is what the node hands to the node switch.
\<close>

theorem ack_double_space_not_split_witness:
  "map_option stored_urls
     (parse_address_resolution_ack 128 ''wss://a  wss://bbb''
        (resolution_zero\<lparr>BSC_ADDRESS_RESOLUTION.used := True, vmac := peer_vmac\<rparr>)) =
     Some [''wss://a  wss://bbb''] \<and>
   map_option urls_num
     (parse_address_resolution_ack 128 ''wss://a  wss://bbb''
        (resolution_zero\<lparr>BSC_ADDRESS_RESOLUTION.used := True, vmac := peer_vmac\<rparr>)) = Some 1 \<and>
   map_option (\<lambda>w. map stored_urls (resolution (node w)))
     (bsc_node_process_received node_env_ok None 0 ack_example node_world_started) =
     Some [[''wss://a  wss://bbb''], []] \<and>
   map_option stored_urls
     (parse_address_resolution_ack 128 ''wss://a  wss://bbb''
        (resolution_zero\<lparr>BSC_ADDRESS_RESOLUTION.used := True, vmac := peer_vmac\<rparr>)) \<noteq>
     Some [''wss://a'', ''wss://bbb'']"
proof -
  let ?r = "resolution_zero\<lparr>BSC_ADDRESS_RESOLUTION.used := True, vmac := peer_vmac,
           utf8_urls := [''wss://a  wss://bbb'' @ replicate 111 (CHR 0x00),
                         replicate 129 (CHR 0x00)],
           urls_num := 1\<rparr>"
  have r: "replicate 111 (CHR 0x00) = CHR 0x00 # replicate 110 (CHR 0x00)"
  proof -
    have "(111::nat) = Suc 110" by simp
    then have "replicate 111 (CHR 0x00) = replicate (Suc 110) (CHR 0x00)" by (rule arg_cong)
    then show ?thesis by (simp only: replicate_Suc)
  qed
  have s: "stored_urls ?r = [''wss://a  wss://bbb'']"
    by (simp add: stored_urls_def url_of_row_def r)
  have z: "stored_urls resolution_zero = []"
    by (simp add: stored_urls_def resolution_zero_def)
  have n: "urls_num ?r \<le> 1 \<and> stored_urls ?r \<noteq> [''wss://a'', ''wss://bbb'']"
    using ack_double_space_not_split [OF ack_example_parsed] .
  have tbl: "resolution (node node_world_started) = [resolution_zero, resolution_zero]"
    by (simp add: node_world_started_eval node_world_starting_eval node_world_idle_def)
  have u: "\<not> BSC_ADDRESS_RESOLUTION.used resolution_zero"
    by (simp add: resolution_zero_def)
  have p: "bsc_node_process_received node_env_ok None 0 ack_example node_world_started =
        Some (node_call (Call_node_switch_process_address_resolution
                 (node_switch (node node_world_started)) ?r)
               (node_world_started\<lparr>node := (node node_world_started)
                  \<lparr>resolution := [?r, resolution_zero]\<rparr>\<rparr>))"
    using u
    by (simp add: bsc_node_process_received_def process_received_switch_def ack_example_def tbl
          ack_example_parsed node_env_ok_def Let_def)
  have sel: "resolution (node (node_call c (w\<lparr>node := (node w)\<lparr>resolution := X\<rparr>\<rparr>))) = X" for c w X
    by (simp add: node_call_def)
  have c1: "map_option stored_urls
     (parse_address_resolution_ack 128 ''wss://a  wss://bbb''
        (resolution_zero\<lparr>BSC_ADDRESS_RESOLUTION.used := True, vmac := peer_vmac\<rparr>)) =
     Some [''wss://a  wss://bbb'']"
    by (simp only: ack_example_parsed option.map s)
  have c2: "map_option urls_num
     (parse_address_resolution_ack 128 ''wss://a  wss://bbb''
        (resolution_zero\<lparr>BSC_ADDRESS_RESOLUTION.used := True, vmac := peer_vmac\<rparr>)) = Some 1"
    by (simp add: ack_example_parsed)
  have c3: "map_option (\<lambda>w. map stored_urls (resolution (node w)))
     (bsc_node_process_received node_env_ok None 0 ack_example node_world_started) =
     Some [[''wss://a  wss://bbb''], []]"
    by (simp only: p option.map sel list.map s z)
  have c4: "map_option stored_urls
     (parse_address_resolution_ack 128 ''wss://a  wss://bbb''
        (resolution_zero\<lparr>BSC_ADDRESS_RESOLUTION.used := True, vmac := peer_vmac\<rparr>)) \<noteq>
     Some [''wss://a'', ''wss://bbb'']"
    using n by (simp only: ack_example_parsed option.map option.inject simp_thms)
  show ?thesis
    by (intro conjI) (fact c1 c2 c3 c4)+
qed

text \<open>
  Claim C3 fails on the code. The \<^verbatim>\<open>return\<close> that drops a PDU with a must-understand
  option stands inside the test of \<^verbatim>\<open>bvlc_sc_need_send_bvlc_result\<close>: when the
  originator expects no result the scan runs to its end and the PDU is dispatched by its
  function. A BVLC-Result NAK for an address resolution with such an option is recorded
  in the resolution table; an encapsulated NPDU with such an option, from an originator
  that expects no result, is handed to the owner.
\<close>

theorem must_understand_pdu_dispatched:
  "list_ex must_understand (dest_options nak_must_understand_example) \<and>
   map BSC_ADDRESS_RESOLUTION.used (resolution (node node_world_started)) = [False, False] \<and>
   map_option (\<lambda>w. map BSC_ADDRESS_RESOLUTION.used (resolution (node w)))
     (bsc_node_process_received node_env_ok None 0 nak_must_understand_example
        node_world_started) = Some [True, False] \<and>
   list_ex must_understand (dest_options npdu_must_understand_example) \<and>
   map_option out
     (bsc_node_process_received (node_env_ok\<lparr>ext_need_send_bvlc_result := (\<lambda>_. False)\<rparr>)
        (Some [1, 2, 3]) 3 npdu_must_understand_example node_world_started) =
     Some (out node_world_started @
             [Call_node_event_func BSC_NODE_EVENT_RECEIVED (Some [1, 2, 3]) 3])"
proof -
  have tbl: "resolution (node node_world_started) = [resolution_zero, resolution_zero]"
    by (simp add: node_world_started_eval node_world_starting_eval node_world_idle_def)
  have u: "\<not> BSC_ADDRESS_RESOLUTION.used resolution_zero"
    by (simp add: resolution_zero_def)
  have n1: "\<not> ext_need_send_bvlc_result node_env_ok nak_must_understand_example"
    by (simp add: node_env_ok_def nak_must_understand_example_def)
  have n2: "\<not> ext_need_send_bvlc_result (node_env_ok\<lparr>ext_need_send_bvlc_result := (\<lambda>_. False)\<rparr>)
              npdu_must_understand_example"
    by simp
  have a: "map_option (\<lambda>w. map BSC_ADDRESS_RESOLUTION.used (resolution (node w)))
     (bsc_node_process_received node_env_ok None 0 nak_must_understand_example
        node_world_started) = Some [True, False]"
    unfolding process_received_ignores_options [OF n1]
    using u by (simp add: process_received_switch_def nak_must_understand_example_def tbl)
  have b: "map_option out
     (bsc_node_process_received (node_env_ok\<lparr>ext_need_send_bvlc_result := (\<lambda>_. False)\<rparr>)
        (Some [1, 2, 3]) 3 npdu_must_understand_example node_world_started) =
     Some (out node_world_started @
             [Call_node_event_func BSC_NODE_EVENT_RECEIVED (Some [1, 2, 3]) 3])"
    unfolding process_received_ignores_options [OF n2]
    by (simp add: process_received_switch_def npdu_must_understand_example_def node_call_def)
  show ?thesis
    using a b u by (simp add: tbl nak_must_understand_example_def npdu_must_understand_example_def)
qed

theorem must_understand_pdu_dispatched_witness:
  "bsc_node_process_received node_env_ok None 0 nak_must_understand_example node_world_started \<noteq>
     Some node_world_started \<and>
   bsc_node_process_received (node_env_ok\<lparr>ext_need_send_bvlc_result := (\<lambda>_. False)\<rparr>)
     (Some [1, 2, 3]) 3 npdu_must_understand_example node_world_started \<noteq>
     Some node_world_started"
  using must_understand_pdu_dispatched by auto

end
